theory Spec2Isabelle
  imports Complex_Main "HOL-Library.AList" "HOL-Library.Multiset"
    "HOL-Library.List_Lexorder" "HOL-Library.Char_ord"
begin

section \<open>JavaScript values\<close>

text \<open>
  The routes of \<^verbatim>\<open>src/routes/jobs.js\<close> move JSON-like values between the request, the
  schema validator, the \<^verbatim>\<open>Job\<close> model and the response. A JavaScript number is a finite
  value, \<^verbatim>\<open>NaN\<close> or an infinity; the code never computes with numbers, it only produces
  them by unary plus and hands them on, so finite numbers are kept as rationals.
\<close>

datatype jsnum = Num rat | NaN | PosInfinity | NegInfinity

datatype jsval =
    JUndefined
  | JNull
  | JBool bool
  | JNum jsnum
  | JStr string
  | JArr "jsval list"
  | JObj "(string \<times> jsval) list"

text \<open>An object is its list of own properties, in insertion order.\<close>

type_synonym jsobj = "(string \<times> jsval) list"

text \<open>\<^verbatim>\<open>o.k\<close>: reading a property the object does not have gives \<^verbatim>\<open>undefined\<close>.\<close>

definition get_prop :: "jsobj \<Rightarrow> string \<Rightarrow> jsval" where
  "get_prop obj k = (case map_of obj k of None \<Rightarrow> JUndefined | Some v \<Rightarrow> v)"

text \<open>\<^verbatim>\<open>o.k = v\<close>: an existing property keeps its place, a new one is added at the end.\<close>

definition set_prop :: "jsobj \<Rightarrow> string \<Rightarrow> jsval \<Rightarrow> jsobj" where
  "set_prop obj k v = AList.update k v obj"

section \<open>Errors\<close>

text \<open>
  Modelled from the spec: the error classes of \<^verbatim>\<open>../expressError\<close> are not in the source
  tree; the routes import \<^verbatim>\<open>BadRequestError\<close> from it and construct it with the list of
  violation messages. Section 7 of the specification names the taxonomy: ValidationError
  (here \<^verbatim>\<open>BadRequestError\<close>, the name the routes use), AuthorizationError and
  NotFoundError, each with a message, and unclassified store or runtime failures.
  \<^verbatim>\<open>ReferenceError\<close> and \<^verbatim>\<open>TypeError\<close> are the unclassified failures the JavaScript
  runtime raises itself: an identifier that resolves to no binding, and a call of a value
  that is not a function.
\<close>

datatype error =
    BadRequestError jsval
  | AuthorizationError
  | NotFoundError jsval
  | ReferenceError string
  | TypeError string
  | Unclassified string

section \<open>Effects: the store, the log of model calls, exceptions\<close>

text \<open>
  An \<^verbatim>\<open>async\<close> function body is a computation over the world (the store behind the
  \<^verbatim>\<open>Job\<close> model, and the list of calls made to the model so far). It ends with
  \<open>Inl e\<close> when \<open>e\<close> is thrown and not caught (the promise rejects) and with
  \<open>Inr x\<close> when it returns \<open>x\<close>.
\<close>

datatype call =
    CallCreate jsval
  | CallFindAll jsobj
  | CallGet jsval
  | CallUpdate jsval jsval
  | CallRemove jsval

type_synonym 'db world = "'db \<times> call list"

type_synonym ('db, 'a) js = "'db world \<Rightarrow> (error + 'a) \<times> 'db world"

definition js_return :: "'a \<Rightarrow> ('db, 'a) js" where
  "js_return x = (\<lambda>w. (Inr x, w))"

definition js_throw :: "error \<Rightarrow> ('db, 'a) js" where
  "js_throw e = (\<lambda>w. (Inl e, w))"

definition js_bind :: "('db, 'a) js \<Rightarrow> ('a \<Rightarrow> ('db, 'b) js) \<Rightarrow> ('db, 'b) js" where
  "js_bind m f = (\<lambda>w. case m w of (Inl e, w') \<Rightarrow> (Inl e, w') | (Inr x, w') \<Rightarrow> f x w')"

text \<open>\<^verbatim>\<open>try { m } catch (error) { h }\<close>\<close>

definition js_try :: "('db, 'a) js \<Rightarrow> (error \<Rightarrow> ('db, 'a) js) \<Rightarrow> ('db, 'a) js" where
  "js_try m h = (\<lambda>w. case m w of (Inl e, w') \<Rightarrow> h e w' | (Inr x, w') \<Rightarrow> (Inr x, w'))"

text \<open>An expression that touches neither the store nor the log: it throws or has a value.\<close>

definition js_of :: "error + 'a \<Rightarrow> ('db, 'a) js" where
  "js_of x = (case x of Inl e \<Rightarrow> js_throw e | Inr v \<Rightarrow> js_return v)"

section \<open>Collaborators of the routes\<close>

subsection \<open>The schema validator\<close>

text \<open>
  \<^verbatim>\<open>jsonschema.validate(instance, schema)\<close> is external. The routes read two properties of
  its result: \<^verbatim>\<open>valid\<close> and \<^verbatim>\<open>errors\<close>, whose elements carry the message \<^verbatim>\<open>stack\<close>. The
  three schema files are not in the source tree, so the validator is taken as a parameter
  that receives the schema's name.
\<close>

datatype schema = jobNewSchema | jobUpdateSchema | jobSearchSchema

record validation_error =
  property :: string
  message :: string
  stack :: string

record validator_result =
  valid :: bool
  errors :: "validation_error list"

text \<open>
  Property access on a validator result, by name. The result object of the library has
  further properties (\<^verbatim>\<open>instance\<close>, \<^verbatim>\<open>schema\<close>, \<^verbatim>\<open>addError\<close>, ...) that the routes never
  read and none of which is called \<^verbatim>\<open>validate\<close> (section 9 of the specification calls
  it a nonexistent property); a name that is not a property reads as \<^verbatim>\<open>undefined\<close>.
\<close>

datatype vr_prop = VBool bool | VErrors "validation_error list" | VUndefined

definition vr_get :: "validator_result \<Rightarrow> string \<Rightarrow> vr_prop" where
  "vr_get v name =
     (if name = ''valid'' then VBool (valid v)
      else if name = ''errors'' then VErrors (errors v)
      else VUndefined)"

text \<open>The operator \<^verbatim>\<open>!\<close>: \<^verbatim>\<open>undefined\<close> and \<^verbatim>\<open>false\<close> are falsy, an array is truthy.\<close>

fun js_not :: "vr_prop \<Rightarrow> bool" where
  "js_not (VBool b) = (\<not> b)"
| "js_not (VErrors es) = False"
| "js_not VUndefined = True"

subsection \<open>The Job model\<close>

text \<open>
  \<^verbatim>\<open>../models/job\<close> is not in the source tree; the routes are modelled over any
  implementation of its five operations. Each operation acts on the store and either
  throws or returns a value.
\<close>

record 'db job_model =
  create :: "jsval \<Rightarrow> 'db \<Rightarrow> (error + jsval) \<times> 'db"
  findAll :: "jsobj \<Rightarrow> 'db \<Rightarrow> (error + jsval) \<times> 'db"
  get :: "jsval \<Rightarrow> 'db \<Rightarrow> (error + jsval) \<times> 'db"
  update :: "jsval \<Rightarrow> jsval \<Rightarrow> 'db \<Rightarrow> (error + jsval) \<times> 'db"
  remove :: "jsval \<Rightarrow> 'db \<Rightarrow> (error + unit) \<times> 'db"

text \<open>
  The unary plus of JavaScript (\<^verbatim>\<open>+x\<close>) rests on two primitives of the language.
  \<open>to_number\<close> is the conversion of a primitive value (\<^verbatim>\<open>undefined\<close>, \<^verbatim>\<open>null\<close>, a boolean,
  a number or a string) to a number; it never throws. \<open>to_primitive\<close> is the conversion
  of an object or an array to a primitive value, which calls its \<^verbatim>\<open>valueOf\<close> and
  \<^verbatim>\<open>toString\<close> and throws a TypeError when neither is callable and returns a primitive:
  so it does on \<^verbatim>\<open>{toString: "x"}\<close>, which the query parser of Express 4 makes of
  \<^verbatim>\<open>?minSalary[toString]=x\<close>.
\<close>

record 'db deps =
  jsonschema_validate :: "jsval \<Rightarrow> schema \<Rightarrow> validator_result"
  to_number :: "jsval \<Rightarrow> jsnum"
  to_primitive :: "jsval \<Rightarrow> error + jsval"
  Job :: "'db job_model"

fun is_primitive :: "jsval \<Rightarrow> bool" where
  "is_primitive (JArr xs) = False"
| "is_primitive (JObj ps) = False"
| "is_primitive v = True"

text \<open>
  \<^verbatim>\<open>+x\<close>: a primitive value is converted to a number; an object or an array is first
  converted to a primitive value, which may throw.
\<close>

definition unary_plus :: "'db deps \<Rightarrow> jsval \<Rightarrow> error + jsnum" where
  "unary_plus d v =
     (if is_primitive v then Inr (to_number d v)
      else case to_primitive d v of
             Inl e \<Rightarrow> Inl e
           | Inr p \<Rightarrow> Inr (to_number d p))"

text \<open>\<^verbatim>\<open>await Job.op(...)\<close>: the call is recorded, then run on the store.\<close>

definition await_job :: "call \<Rightarrow> ('db \<Rightarrow> (error + 'a) \<times> 'db) \<Rightarrow> ('db, 'a) js" where
  "await_job c f = (\<lambda>w. case f (fst w) of (r, db') \<Rightarrow> (r, (db', snd w @ [c])))"

section \<open>Requests, responses and function scope\<close>

datatype verb = GET | POST | PATCH | DELETE

text \<open>A path below the mount point of the router: \<^verbatim>\<open>/\<close> or \<^verbatim>\<open>/segment\<close>.\<close>

datatype path = Root | Seg string

text \<open>
  \<open>is_admin\<close> is the decision of the authentication middleware for this request
  (the specification's \<^verbatim>\<open>isAdmin(request)\<close>); \<open>params\<close> is filled in by the router.
\<close>

record request =
  verb :: verb
  path :: path
  query :: jsobj
  body :: jsval
  params :: jsobj
  is_admin :: bool

text \<open>What Express passes to each function of a route: \<^verbatim>\<open>(req, res, next)\<close>.\<close>

datatype arg = Req request | Res | Next

text \<open>
  What a function of a route did when it returned: it sent a response through
  \<^verbatim>\<open>res\<close>, or it called \<^verbatim>\<open>next()\<close> or \<^verbatim>\<open>next(error)\<close>.
\<close>

datatype effect = Sent nat jsval | NextCalled "error option"

text \<open>
  The scope of a function body binds the formal parameters to the arguments. The module
  scope of \<^verbatim>\<open>jobs.js\<close> declares \<^verbatim>\<open>jsonschema\<close>, \<^verbatim>\<open>express\<close>, \<^verbatim>\<open>BadRequestError\<close>,
  \<^verbatim>\<open>ensureAdmin\<close>, \<^verbatim>\<open>Job\<close>, the three schemas and \<^verbatim>\<open>router\<close>, and nothing called
  \<^verbatim>\<open>req\<close>, \<^verbatim>\<open>res\<close> or \<^verbatim>\<open>next\<close>; the file is in strict mode. So these three names
  resolve only through the parameters, and an unresolved name throws a ReferenceError.
\<close>

type_synonym env = "(string \<times> arg) list"

definition ident :: "env \<Rightarrow> string \<Rightarrow> ('db, arg) js" where
  "ident env x =
     (case map_of env x of
        None \<Rightarrow> js_throw (ReferenceError x)
      | Some a \<Rightarrow> js_return a)"

text \<open>
  \<^verbatim>\<open>x.body\<close>, \<^verbatim>\<open>x.query\<close> and \<^verbatim>\<open>x.params\<close> are read from the value bound to \<^verbatim>\<open>req\<close>.
  Express passes the request first, and every function of this file that declares
  parameters declares \<^verbatim>\<open>req\<close> first, so that value is always the request; the two other
  cases, here and in the next two functions, only make the functions total.
\<close>

fun as_request :: "arg \<Rightarrow> ('db, request) js" where
  "as_request (Req r) = js_return r"
| "as_request Res = js_throw (TypeError ''not a request'')"
| "as_request Next = js_throw (TypeError ''not a request'')"

text \<open>\<^verbatim>\<open>x.status(st).json(v)\<close> and \<^verbatim>\<open>x.json(v)\<close> (status 200) on the value bound to \<^verbatim>\<open>res\<close>.\<close>

fun res_status_json :: "arg \<Rightarrow> nat \<Rightarrow> jsval \<Rightarrow> ('db, effect) js" where
  "res_status_json Res st v = js_return (Sent st v)"
| "res_status_json (Req r) st v = js_throw (TypeError ''status is not a function'')"
| "res_status_json Next st v = js_throw (TypeError ''status is not a function'')"

definition res_json :: "arg \<Rightarrow> jsval \<Rightarrow> ('db, effect) js" where
  "res_json x v = res_status_json x 200 v"

text \<open>\<^verbatim>\<open>x(error)\<close> on the value bound to \<^verbatim>\<open>next\<close>.\<close>

fun call_next :: "arg \<Rightarrow> error option \<Rightarrow> ('db, effect) js" where
  "call_next Next e = js_return (NextCalled e)"
| "call_next (Req r) e = js_throw (TypeError ''next is not a function'')"
| "call_next Res e = js_throw (TypeError ''next is not a function'')"

text \<open>A JavaScript function: its formal parameters and its body.\<close>

record 'db jsfun =
  formals :: "string list"
  code :: "env \<Rightarrow> ('db, effect) js"

definition apply_fn :: "'db jsfun \<Rightarrow> arg list \<Rightarrow> ('db, effect) js" where
  "apply_fn f args = code f (zip (formals f) args)"

section \<open>The route handlers of \<^verbatim>\<open>src/routes/jobs.js\<close>\<close>

text \<open>\<^verbatim>\<open>validator.errors.map(e => e.stack)\<close>, as the array given to \<^verbatim>\<open>BadRequestError\<close>.\<close>

definition error_stacks :: "validator_result \<Rightarrow> jsval" where
  "error_stacks validator = JArr (map (\<lambda>e. JStr (stack e)) (errors validator))"

text \<open>The \<^verbatim>\<open>catch (error) { return next(error); }\<close> block shared by all five handlers.\<close>

definition catch_next :: "env \<Rightarrow> error \<Rightarrow> ('db, effect) js" where
  "catch_next env error = js_bind (ident env ''next'') (\<lambda>n. call_next n (Some error))"

text \<open>\<^verbatim>\<open>router.post("/", ensureAdmin, async function (req, res, next) {...})\<close>, lines 26-40.\<close>

definition post_root :: "'db deps \<Rightarrow> env \<Rightarrow> ('db, effect) js" where
  "post_root d env =
     js_try
       (js_bind (ident env ''req'') (\<lambda>a. js_bind (as_request a) (\<lambda>req.
          let validator = jsonschema_validate d (body req) jobNewSchema in
          if js_not (vr_get validator ''valid'') then
            js_throw (BadRequestError (error_stacks validator))
          else
            js_bind (await_job (CallCreate (body req)) (create (Job d) (body req))) (\<lambda>job.
            js_bind (ident env ''res'') (\<lambda>res.
              res_status_json res 201 (JObj [(''job'', job)]))))))
       (catch_next env)"

text \<open>
  Line 57 of \<^verbatim>\<open>router.get("/")\<close>:
  \<^verbatim>\<open>if (q.minSalary !== undefined) q.minSalary = +q.minSalary;\<close>. The unary plus may throw.
\<close>

definition coerce_minSalary :: "'db deps \<Rightarrow> jsobj \<Rightarrow> error + jsobj" where
  "coerce_minSalary d q =
     (if get_prop q ''minSalary'' \<noteq> JUndefined then
        (case unary_plus d (get_prop q ''minSalary'') of
           Inl e \<Rightarrow> Inl e
         | Inr n \<Rightarrow> Inr (set_prop q ''minSalary'' (JNum n)))
      else Inr q)"

text \<open>Line 58: \<^verbatim>\<open>q.hasEquity = q.hasEquity === "true";\<close>\<close>

definition coerce_hasEquity :: "jsobj \<Rightarrow> jsobj" where
  "coerce_hasEquity q = set_prop q ''hasEquity'' (JBool (get_prop q ''hasEquity'' = JStr ''true''))"

text \<open>
  Lines 57-58: the query object is updated in place, line 58 only if line 57 did not
  throw.
\<close>

definition coerce_query :: "'db deps \<Rightarrow> jsobj \<Rightarrow> error + jsobj" where
  "coerce_query d q =
     (case coerce_minSalary d q of
        Inl e \<Rightarrow> Inl e
      | Inr q1 \<Rightarrow> Inr (coerce_hasEquity q1))"

text \<open>Lines 60-71: the \<^verbatim>\<open>try\<close> block of \<^verbatim>\<open>router.get("/")\<close>, run on the coerced \<^verbatim>\<open>q\<close>.\<close>

definition get_root_try :: "'db deps \<Rightarrow> env \<Rightarrow> jsobj \<Rightarrow> ('db, effect) js" where
  "get_root_try d env q =
     js_try
       (let validator = jsonschema_validate d (JObj q) jobSearchSchema in
        if js_not (vr_get validator ''validate'') then
          js_throw (BadRequestError (error_stacks validator))
        else
          js_bind (await_job (CallFindAll q) (findAll (Job d) q)) (\<lambda>jobs.
          js_bind (ident env ''res'') (\<lambda>res.
            res_json res (JObj [(''jobs'', jobs)]))))
       (catch_next env)"

text \<open>
  \<^verbatim>\<open>router.get("/", async function (req, res, next) {...})\<close>, lines 53-72. The coercion
  of lines 57-58 stands before the \<^verbatim>\<open>try\<close> block: what it throws is not caught, and the
  promise of the handler rejects.
\<close>

definition get_root :: "'db deps \<Rightarrow> env \<Rightarrow> ('db, effect) js" where
  "get_root d env =
     js_bind (ident env ''req'') (\<lambda>a. js_bind (as_request a) (\<lambda>req.
     js_bind (js_of (coerce_query d (query req))) (\<lambda>q.
       get_root_try d env q)))"

text \<open>\<^verbatim>\<open>router.get("/:id", async function (req, res, next) {...})\<close>, lines 82-90.\<close>

definition get_id :: "'db deps \<Rightarrow> env \<Rightarrow> ('db, effect) js" where
  "get_id d env =
     js_try
       (js_bind (ident env ''req'') (\<lambda>a. js_bind (as_request a) (\<lambda>req.
          let id = get_prop (params req) ''id'' in
          js_bind (await_job (CallGet id) (get (Job d) id)) (\<lambda>job.
          js_bind (ident env ''res'') (\<lambda>res.
            res_json res (JObj [(''job'', job)]))))))
       (catch_next env)"

text \<open>
  \<^verbatim>\<open>router.patch("/:id", ensureAdmin, async function () {...})\<close>, lines 101-115. The body
  is that of a handler, but the function declares no parameters.
\<close>

definition patch_id :: "'db deps \<Rightarrow> env \<Rightarrow> ('db, effect) js" where
  "patch_id d env =
     js_try
       (js_bind (ident env ''req'') (\<lambda>a. js_bind (as_request a) (\<lambda>req.
          let validator = jsonschema_validate d (body req) jobUpdateSchema in
          if js_not (vr_get validator ''valid'') then
            js_throw (BadRequestError (error_stacks validator))
          else
            let id = get_prop (params req) ''id'' in
            js_bind (await_job (CallUpdate id (body req)) (update (Job d) id (body req))) (\<lambda>job.
            js_bind (ident env ''res'') (\<lambda>res.
              res_json res (JObj [(''job'', job)]))))))
       (catch_next env)"

text \<open>\<^verbatim>\<open>router.delete("/:id", ensureAdmin, async function (req, res, next) {...})\<close>, lines 122-129.\<close>

definition delete_id :: "'db deps \<Rightarrow> env \<Rightarrow> ('db, effect) js" where
  "delete_id d env =
     js_try
       (js_bind (ident env ''req'') (\<lambda>a. js_bind (as_request a) (\<lambda>req.
          let id = get_prop (params req) ''id'' in
          js_bind (await_job (CallRemove id) (remove (Job d) id)) (\<lambda>u.
          js_bind (ident env ''res'') (\<lambda>res.
          js_bind (js_of (unary_plus d (get_prop (params req) ''id''))) (\<lambda>n.
            res_json res (JObj [(''deleted'', JNum n)])))))))
       (catch_next env)"

section \<open>Authorization, error responder and routing\<close>

text \<open>
  Modelled from the spec: \<^verbatim>\<open>ensureAdmin\<close> of \<^verbatim>\<open>../middleware/auth\<close> is not in the source
  tree. The specification consumes the authentication layer as a boolean decision
  \<^verbatim>\<open>isAdmin(request)\<close> and classifies missing or insufficient privilege as an
  AuthorizationError: an admin request goes on to the next function of the route, any
  other request is forwarded to the error responder with that error.
\<close>

definition ensureAdmin_code :: "env \<Rightarrow> ('db, effect) js" where
  "ensureAdmin_code env =
     js_bind (ident env ''req'') (\<lambda>a. js_bind (as_request a) (\<lambda>req.
     js_bind (ident env ''next'') (\<lambda>n.
       if is_admin req then call_next n None
       else call_next n (Some AuthorizationError))))"

text \<open>
  Modelled from the spec: the middleware as a function of \<^verbatim>\<open>(req, res, next)\<close>.
\<close>

definition ensureAdmin :: "'db jsfun" where
  "ensureAdmin = \<lparr>formals = [''req'', ''res'', ''next''], code = ensureAdmin_code\<rparr>"

text \<open>
  Modelled from the spec: the centralized error responder lives in the application file,
  which is not in the source tree. Section 7 of the specification: ValidationError gives
  400, AuthorizationError 401, NotFoundError 404, anything unclassified 500, and the body
  is \<^verbatim>\<open>{error: {message, status}}\<close>. The specification does not fix the message texts.
\<close>

fun status_of :: "error \<Rightarrow> nat" where
  "status_of (BadRequestError m) = 400"
| "status_of AuthorizationError = 401"
| "status_of (NotFoundError m) = 404"
| "status_of (ReferenceError x) = 500"
| "status_of (TypeError m) = 500"
| "status_of (Unclassified m) = 500"

text \<open>
  Modelled from the spec: the message of an error, for the body of the error response; the
  specification does not fix the texts.
\<close>

fun message_of :: "error \<Rightarrow> jsval" where
  "message_of (BadRequestError m) = m"
| "message_of AuthorizationError = JStr ''Unauthorized''"
| "message_of (NotFoundError m) = m"
| "message_of (ReferenceError x) = JStr (x @ '' is not defined'')"
| "message_of (TypeError m) = JStr m"
| "message_of (Unclassified m) = JStr m"

text \<open>
  The answer to a request as far as this module decides it: a response with status and
  body; or \<open>Unhandled e\<close>, when the promise of an \<^verbatim>\<open>async\<close> handler rejects with \<open>e\<close>, so
  that no function of the route has sent a response or called \<^verbatim>\<open>next\<close>; or
  \<open>NotRouted\<close>, when the request leaves the router without a match.
\<close>

datatype response = Response nat jsval | Unhandled error | NotRouted

text \<open>
  Modelled from the spec: the centralized error responder of section 7.
\<close>

definition error_responder :: "error \<Rightarrow> response" where
  "error_responder e =
     Response (status_of e)
       (JObj [(''error'', JObj [(''message'', message_of e),
                                (''status'', JNum (Num (of_nat (status_of e))))])])"

text \<open>A route pattern of the router: \<^verbatim>\<open>"/"\<close> or \<^verbatim>\<open>"/:name"\<close>.\<close>

datatype pattern = PRoot | PParam string

fun match_path :: "pattern \<Rightarrow> path \<Rightarrow> jsobj option" where
  "match_path PRoot Root = Some []"
| "match_path (PParam name) (Seg s) = Some [(name, JStr s)]"
| "match_path PRoot (Seg s) = None"
| "match_path (PParam name) Root = None"

record 'db route =
  route_verb :: verb
  route_pattern :: pattern
  route_stack :: "'db jsfun list"

text \<open>
  The functions registered for one route run in order, each called with
  \<^verbatim>\<open>(req, res, next)\<close>; \<^verbatim>\<open>next()\<close> passes on to the following one and \<^verbatim>\<open>next(error)\<close>
  goes to the error responder.
\<close>

fun run_stack :: "'db jsfun list \<Rightarrow> request \<Rightarrow> 'db world \<Rightarrow> response \<times> 'db world" where
  "run_stack [] r w = (NotRouted, w)"
| "run_stack (f # fs) r w =
     (case apply_fn f [Req r, Res, Next] w of
        (Inl e, w') \<Rightarrow> (Unhandled e, w')
      | (Inr (Sent st v), w') \<Rightarrow> (Response st v, w')
      | (Inr (NextCalled None), w') \<Rightarrow> run_stack fs r w'
      | (Inr (NextCalled (Some e)), w') \<Rightarrow> (error_responder e, w'))"

fun dispatch :: "'db route list \<Rightarrow> request \<Rightarrow> 'db world \<Rightarrow> response \<times> 'db world" where
  "dispatch [] r w = (NotRouted, w)"
| "dispatch (rt # rts) r w =
     (if route_verb rt \<noteq> verb r then dispatch rts r w
      else case match_path (route_pattern rt) (path r) of
             None \<Rightarrow> dispatch rts r w
           | Some ps \<Rightarrow>
               (case run_stack (route_stack rt) (r\<lparr>params := ps\<rparr>) w of
                  (NotRouted, w') \<Rightarrow> dispatch rts r w'
                | (Response st v, w') \<Rightarrow> (Response st v, w')
                | (Unhandled e, w') \<Rightarrow> (Unhandled e, w')))"

text \<open>The five routes of \<^verbatim>\<open>jobs.js\<close>, in the order the file registers them.\<close>

definition handler3 :: "(env \<Rightarrow> ('db, effect) js) \<Rightarrow> 'db jsfun" where
  "handler3 b = \<lparr>formals = [''req'', ''res'', ''next''], code = b\<rparr>"

definition handler0 :: "(env \<Rightarrow> ('db, effect) js) \<Rightarrow> 'db jsfun" where
  "handler0 b = \<lparr>formals = [], code = b\<rparr>"

definition router :: "'db deps \<Rightarrow> 'db route list" where
  "router d =
     [\<lparr>route_verb = POST, route_pattern = PRoot,
        route_stack = [ensureAdmin, handler3 (post_root d)]\<rparr>,
      \<lparr>route_verb = GET, route_pattern = PRoot,
        route_stack = [handler3 (get_root d)]\<rparr>,
      \<lparr>route_verb = GET, route_pattern = PParam ''id'',
        route_stack = [handler3 (get_id d)]\<rparr>,
      \<lparr>route_verb = PATCH, route_pattern = PParam ''id'',
        route_stack = [ensureAdmin, handler0 (patch_id d)]\<rparr>,
      \<lparr>route_verb = DELETE, route_pattern = PParam ''id'',
        route_stack = [ensureAdmin, handler3 (delete_id d)]\<rparr>]"

definition serve :: "'db deps \<Rightarrow> request \<Rightarrow> 'db world \<Rightarrow> response \<times> 'db world" where
  "serve d r w = dispatch (router d) r w"

text \<open>The scope of a handler declared as \<^verbatim>\<open>function (req, res, next)\<close>, called by Express.\<close>

definition env3 :: "request \<Rightarrow> env" where
  "env3 r = [(''req'', Req r), (''res'', Res), (''next'', Next)]"

section \<open>The data model and the Job model of the specification\<close>

text \<open>
  Modelled from the spec: the Job of section 3: an integer id assigned by the store, a title, an
  optional integer salary, an optional equity kept as a decimal string, and the handle of
  its company. \<^verbatim>\<open>../models/job\<close>, its two clause builders and the store are not in the
  source tree; this section is the Job repository as sections 3, 4.1, 4.2 and 4.3 of the
  specification describe it.
\<close>

record job_row =
  job_id :: int
  title :: string
  salary :: "int option"
  equity :: "string option"
  companyHandle :: string

text \<open>
  Modelled from the spec: the Company of section 3, which the repository only reads.
\<close>

record company =
  handle :: string
  name :: string
  description :: string
  numEmployees :: "int option"
  logoUrl :: "string option"

text \<open>
  Modelled from the spec: the store, which owns the rows and assigns the ids (section 3).
\<close>

record store =
  jobs :: "job_row list"
  companies :: "company list"
  next_id :: int

subsection \<open>Decimal strings\<close>

text \<open>
  Modelled from the spec: equity is a decimal string (section 3); this is the value of one
  decimal digit.
\<close>

definition digit_of :: "char \<Rightarrow> nat option" where
  "digit_of c = map_of (zip ''0123456789'' [0, 1, 2, 3, 4, 5, 6, 7, 8, 9]) c"

text \<open>
  Modelled from the spec: the number a string of decimal digits spells, after the digits
  already read.
\<close>

fun digits_value :: "nat \<Rightarrow> string \<Rightarrow> nat option" where
  "digits_value acc [] = Some acc"
| "digits_value acc (c # cs) =
     (case digit_of c of None \<Rightarrow> None | Some d \<Rightarrow> digits_value (10 * acc + d) cs)"

text \<open>
  Modelled from the spec: the number a decimal string such as \<^verbatim>\<open>0.25\<close> stands for.
\<close>

definition decimal_value :: "string \<Rightarrow> rat option" where
  "decimal_value s =
     (let ip = takeWhile (\<lambda>c. c \<noteq> CHR ''.'') s;
          fp = drop 1 (dropWhile (\<lambda>c. c \<noteq> CHR ''.'') s)
      in if ip = [] then None
         else case digits_value 0 (ip @ fp) of
                None \<Rightarrow> None
              | Some n \<Rightarrow> Some (of_nat n / 10 ^ length fp))"

text \<open>
  Modelled from the spec: the predicate \<^verbatim>\<open>equity > 0\<close> of section 4.1 on a row; false for
  a job without equity.
\<close>

definition equity_positive :: "job_row \<Rightarrow> bool" where
  "equity_positive j =
     (case equity j of
        None \<Rightarrow> False
      | Some s \<Rightarrow> (case decimal_value s of None \<Rightarrow> False | Some v \<Rightarrow> 0 < v))"

subsection \<open>Case-insensitive partial match\<close>

text \<open>
  Modelled from the spec: the title filter is case-insensitive (section 4.1); this is the
  lower-case form of a letter.
\<close>

definition lower :: "char \<Rightarrow> char" where
  "lower c =
     (case map_of (zip ''ABCDEFGHIJKLMNOPQRSTUVWXYZ'' ''abcdefghijklmnopqrstuvwxyz'') c of
        None \<Rightarrow> c
      | Some l \<Rightarrow> l)"

text \<open>
  Modelled from the spec: whether a string begins with another, for the partial match of
  section 4.1.
\<close>

fun starts_with :: "string \<Rightarrow> string \<Rightarrow> bool" where
  "starts_with s [] = True"
| "starts_with [] (p # ps) = False"
| "starts_with (c # cs) (p # ps) = (c = p \<and> starts_with cs ps)"

text \<open>
  Modelled from the spec: whether a string occurs in another, for the partial match of
  section 4.1.
\<close>

fun contains :: "string \<Rightarrow> string \<Rightarrow> bool" where
  "contains [] p = (p = [])"
| "contains (c # cs) p = (starts_with (c # cs) p \<or> contains cs p)"

text \<open>
  Modelled from the spec: the predicate \<^verbatim>\<open>title ILIKE '%' + ? + '%'\<close> of section 4.1, a
  case-insensitive partial match.
\<close>

definition ilike :: "string \<Rightarrow> string \<Rightarrow> bool" where
  "ilike s p = contains (map lower s) (map lower p)"

subsection \<open>Filter clause builder (section 4.1)\<close>

text \<open>
  Modelled from the spec: the three predicates the filter clause builder of section 4.1 can
  emit: \<^verbatim>\<open>salary >= ?\<close>, \<^verbatim>\<open>equity > 0\<close> and \<^verbatim>\<open>title ILIKE '%' + ? + '%'\<close>.
\<close>

datatype predicate = SalaryGe | EquityPositive | TitleILike

text \<open>
  Modelled from the spec: the filter clause builder of section 4.1. For each present key it
  appends one predicate, \<^verbatim>\<open>equity > 0\<close> only for \<^verbatim>\<open>hasEquity === true\<close>; the combined
  predicate is the conjunction of the list, in order (the empty list matches every row),
  and the bound values fill the placeholders from left to right.
\<close>

definition filter_clause :: "jsobj \<Rightarrow> predicate list \<times> jsval list" where
  "filter_clause filters =
     (let minSalary = get_prop filters ''minSalary'';
          hasEquity = get_prop filters ''hasEquity'';
          t = get_prop filters ''title''
      in ((if minSalary \<noteq> JUndefined then [SalaryGe] else [])
          @ (if hasEquity = JBool True then [EquityPositive] else [])
          @ (if t \<noteq> JUndefined then [TitleILike] else []),
          (if minSalary \<noteq> JUndefined then [minSalary] else [])
          @ (if t \<noteq> JUndefined then [t] else [])))"

text \<open>
  Modelled from the spec: the store executes a parameterized statement (section 4.3); it
  accepts the statement when every placeholder has a value of its type.
\<close>

fun well_bound :: "predicate list \<Rightarrow> jsval list \<Rightarrow> bool" where
  "well_bound [] vs = (vs = [])"
| "well_bound (SalaryGe # ps) (JNum (Num n) # vs) = well_bound ps vs"
| "well_bound (SalaryGe # ps) vs = False"
| "well_bound (EquityPositive # ps) vs = well_bound ps vs"
| "well_bound (TitleILike # ps) (JStr t # vs) = well_bound ps vs"
| "well_bound (TitleILike # ps) vs = False"

text \<open>
  Modelled from the spec: whether a row satisfies the conjunction of the predicates with
  their bound values (section 4.1); a missing salary satisfies no bound.
\<close>

fun row_holds :: "predicate list \<Rightarrow> jsval list \<Rightarrow> job_row \<Rightarrow> bool" where
  "row_holds [] vs j = True"
| "row_holds (SalaryGe # ps) (JNum (Num n) # vs) j =
     ((case salary j of None \<Rightarrow> False | Some s \<Rightarrow> n \<le> of_int s) \<and> row_holds ps vs j)"
| "row_holds (SalaryGe # ps) vs j = False"
| "row_holds (EquityPositive # ps) vs j = (equity_positive j \<and> row_holds ps vs j)"
| "row_holds (TitleILike # ps) (JStr t # vs) j = (ilike (title j) t \<and> row_holds ps vs j)"
| "row_holds (TitleILike # ps) vs j = False"

subsection \<open>Partial update clause builder (section 4.2)\<close>

text \<open>
  Modelled from the spec: the columns a partial update can set (section 4.2).
\<close>

datatype column = Col_title | Col_salary | Col_equity

text \<open>
  Modelled from the spec: the explicit mapping from field names to columns of section 4.2,
  total on the allowed field names.
\<close>

definition column_of :: "string \<Rightarrow> column option" where
  "column_of f =
     map_of [(''title'', Col_title), (''salary'', Col_salary), (''equity'', Col_equity)] f"

text \<open>
  Modelled from the spec: the columns of the \<^verbatim>\<open>SET\<close> fragments, one per present key and in
  the order of the keys (section 4.2).
\<close>

fun set_columns :: "jsobj \<Rightarrow> column list option" where
  "set_columns [] = Some []"
| "set_columns ((k, v) # kvs) =
     (case column_of k of
        None \<Rightarrow> None
      | Some c \<Rightarrow> (case set_columns kvs of None \<Rightarrow> None | Some cs \<Rightarrow> Some (c # cs)))"

text \<open>
  Modelled from the spec: the partial update clause builder of section 4.2: one
  \<^verbatim>\<open>SET "<column>" = ?\<close> per present key with the bound values in the same order; an
  empty map is a caller error.
\<close>

definition update_clause :: "jsobj \<Rightarrow> error + column list \<times> jsval list" where
  "update_clause data =
     (if data = [] then Inl (BadRequestError (JStr ''No data''))
      else case set_columns data of
             None \<Rightarrow> Inl (BadRequestError (JStr ''Unknown field''))
           | Some cs \<Rightarrow> Inr (cs, map snd data))"

subsection \<open>Values of the columns and JSON shapes\<close>

text \<open>
  Modelled from the spec: the salary column holds an optional integer (section 3); this is
  how the store reads it from a JSON value.
\<close>

fun as_salary :: "jsval \<Rightarrow> int option option" where
  "as_salary (JNum (Num n)) = (if n = of_int \<lfloor>n\<rfloor> then Some (Some \<lfloor>n\<rfloor>) else None)"
| "as_salary JNull = Some None"
| "as_salary JUndefined = Some None"
| "as_salary v = None"

text \<open>
  Modelled from the spec: the equity column holds an optional decimal string (section 3);
  this is how the store reads it from a JSON value.
\<close>

fun as_equity :: "jsval \<Rightarrow> string option option" where
  "as_equity (JStr s) = Some (Some s)"
| "as_equity JNull = Some None"
| "as_equity JUndefined = Some None"
| "as_equity v = None"

text \<open>
  Modelled from the spec: an integer column as a JSON number.
\<close>

definition json_int :: "int \<Rightarrow> jsval" where
  "json_int n = JNum (Num (of_int n))"

text \<open>
  Modelled from the spec: an optional integer column as JSON, \<^verbatim>\<open>null\<close> when absent.
\<close>

definition json_opt_int :: "int option \<Rightarrow> jsval" where
  "json_opt_int x = (case x of None \<Rightarrow> JNull | Some n \<Rightarrow> json_int n)"

text \<open>
  Modelled from the spec: an optional string column as JSON, \<^verbatim>\<open>null\<close> when absent
  (section 3: equity is rendered as \<^verbatim>\<open>null\<close> when absent and never turned into a number).
\<close>

definition json_opt_str :: "string option \<Rightarrow> jsval" where
  "json_opt_str x = (case x of None \<Rightarrow> JNull | Some s \<Rightarrow> JStr s)"

text \<open>
  Modelled from the spec: the shape \<^verbatim>\<open>{id, title, salary, equity, companyHandle}\<close> that
  \<^verbatim>\<open>create\<close> and \<^verbatim>\<open>update\<close> return (section 4.3).
\<close>

definition job_json :: "job_row \<Rightarrow> jsval" where
  "job_json j =
     JObj [(''id'', json_int (job_id j)), (''title'', JStr (title j)),
           (''salary'', json_opt_int (salary j)), (''equity'', json_opt_str (equity j)),
           (''companyHandle'', JStr (companyHandle j))]"

text \<open>
  Modelled from the spec: the shape
  \<^verbatim>\<open>{id, title, salary, equity, companyHandle, companyName}\<close> of a record of \<^verbatim>\<open>findAll\<close>
  (section 4.3).
\<close>

definition job_listing :: "job_row \<times> company \<Rightarrow> jsval" where
  "job_listing jc =
     JObj [(''id'', json_int (job_id (fst jc))), (''title'', JStr (title (fst jc))),
           (''salary'', json_opt_int (salary (fst jc))),
           (''equity'', json_opt_str (equity (fst jc))),
           (''companyHandle'', JStr (companyHandle (fst jc))),
           (''companyName'', JStr (name (snd jc)))]"

text \<open>
  Modelled from the spec: the shape
  \<^verbatim>\<open>{id, title, salary, equity, company: {handle, name, description, numEmployees, logoUrl}}\<close>
  that \<^verbatim>\<open>get\<close> returns (section 4.3).
\<close>

definition job_detail :: "job_row \<times> company \<Rightarrow> jsval" where
  "job_detail jc =
     JObj [(''id'', json_int (job_id (fst jc))), (''title'', JStr (title (fst jc))),
           (''salary'', json_opt_int (salary (fst jc))),
           (''equity'', json_opt_str (equity (fst jc))),
           (''company'',
              JObj [(''handle'', JStr (handle (snd jc))), (''name'', JStr (name (snd jc))),
                    (''description'', JStr (description (snd jc))),
                    (''numEmployees'', json_opt_int (numEmployees (snd jc))),
                    (''logoUrl'', json_opt_str (logoUrl (snd jc)))])]"

subsection \<open>The five operations (section 4.3)\<close>

text \<open>
  Modelled from the spec: the jobs table joined to the companies table on the company
  handle (section 4.3).
\<close>

definition joined :: "store \<Rightarrow> (job_row \<times> company) list" where
  "joined db =
     concat (map (\<lambda>j. map (Pair j) (filter (\<lambda>c. handle c = companyHandle j) (companies db)))
       (jobs db))"

text \<open>
  Modelled from the spec: the integer an id argument denotes for the store: a number with
  an integer value, or a string of decimal digits (the path segment of a request, section
  4.4); anything else matches no row.
\<close>

fun id_of :: "jsval \<Rightarrow> int option" where
  "id_of (JNum (Num n)) = (if n = of_int \<lfloor>n\<rfloor> then Some \<lfloor>n\<rfloor> else None)"
| "id_of (JStr s) = (if s = [] then None else map_option int (digits_value 0 s))"
| "id_of v = None"

text \<open>
  Modelled from the spec: the row of the jobs table that an id matches, if any.
\<close>

definition find_job :: "jsval \<Rightarrow> store \<Rightarrow> job_row option" where
  "find_job i db =
     (case id_of i of None \<Rightarrow> None | Some n \<Rightarrow> find (\<lambda>j. job_id j = n) (jobs db))"

text \<open>
  Modelled from the spec: the NotFoundError of \<^verbatim>\<open>get\<close>, \<^verbatim>\<open>update\<close> and \<^verbatim>\<open>remove\<close> when no
  row matches the id (section 4.3); the specification does not fix its message.
\<close>

definition no_job :: error where
  "no_job = NotFoundError (JStr ''No job'')"

text \<open>
  Modelled from the spec: the rows \<^verbatim>\<open>findAll\<close> selects (section 4.3): the joined rows that
  match the filter clause, ordered by title ascending.
\<close>

definition selected :: "jsobj \<Rightarrow> store \<Rightarrow> (job_row \<times> company) list" where
  "selected filters db =
     sort_key (\<lambda>jc. title (fst jc))
       (filter (\<lambda>jc. row_holds (fst (filter_clause filters)) (snd (filter_clause filters)) (fst jc))
          (joined db))"

text \<open>
  Modelled from the spec: \<^verbatim>\<open>findAll(filters)\<close> of section 4.3: it runs the filter clause
  builder against the jobs joined to their companies and returns the listing of the
  selected rows; a statement the store does not accept is an unclassified failure.
\<close>

definition findAll_jobs :: "jsobj \<Rightarrow> store \<Rightarrow> (error + jsval) \<times> store" where
  "findAll_jobs filters db =
     (if \<not> well_bound (fst (filter_clause filters)) (snd (filter_clause filters))
      then (Inl (Unclassified ''store''), db)
      else (Inr (JArr (map job_listing (selected filters db))), db))"

text \<open>
  Modelled from the spec: \<^verbatim>\<open>get(id)\<close> of section 4.3: the job joined to its company, or a
  NotFoundError if no row matches.
\<close>

definition get_job :: "jsval \<Rightarrow> store \<Rightarrow> (error + jsval) \<times> store" where
  "get_job i db =
     (case find (\<lambda>jc. id_of i = Some (job_id (fst jc))) (joined db) of
        None \<Rightarrow> (Inl no_job, db)
      | Some jc \<Rightarrow> (Inr (job_detail jc), db))"

text \<open>
  Modelled from the spec: \<^verbatim>\<open>remove(id)\<close> of section 4.3: it deletes by id, fails with a
  NotFoundError if no row matches, and returns nothing.
\<close>

definition remove_job :: "jsval \<Rightarrow> store \<Rightarrow> (error + unit) \<times> store" where
  "remove_job i db =
     (case find_job i db of
        None \<Rightarrow> (Inl no_job, db)
      | Some j \<Rightarrow> (Inr (), db\<lparr>jobs := filter (\<lambda>x. job_id x \<noteq> job_id j) (jobs db)\<rparr>))"

text \<open>
  Modelled from the spec: one \<^verbatim>\<open>SET\<close> assignment applied to a row; \<open>None\<close> when the value
  does not fit the column.
\<close>

fun assign1 :: "column \<Rightarrow> jsval \<Rightarrow> job_row \<Rightarrow> job_row option" where
  "assign1 Col_title (JStr t) j = Some (j\<lparr>title := t\<rparr>)"
| "assign1 Col_title v j = None"
| "assign1 Col_salary v j = map_option (\<lambda>s. j\<lparr>salary := s\<rparr>) (as_salary v)"
| "assign1 Col_equity v j = map_option (\<lambda>e. j\<lparr>equity := e\<rparr>) (as_equity v)"

text \<open>
  Modelled from the spec: the assignments of an update applied to a row, in order.
\<close>

fun assign :: "column list \<Rightarrow> jsval list \<Rightarrow> job_row \<Rightarrow> job_row option" where
  "assign [] vs j = Some j"
| "assign (c # cs) [] j = None"
| "assign (c # cs) (v # vs) j =
     (case assign1 c v j of None \<Rightarrow> None | Some j' \<Rightarrow> assign cs vs j')"

text \<open>
  Modelled from the spec: \<^verbatim>\<open>update(id, data)\<close> of section 4.3 on the fields of \<^verbatim>\<open>data\<close>:
  it rejects a \<^verbatim>\<open>companyHandle\<close> before calling the builder, runs the partial update
  clause builder, executes, fails with a NotFoundError if no row matches the id, and
  returns the updated row.
\<close>

definition update_fields :: "jsval \<Rightarrow> jsobj \<Rightarrow> store \<Rightarrow> (error + jsval) \<times> store" where
  "update_fields i data db =
     (if map_of data ''companyHandle'' \<noteq> None
      then (Inl (BadRequestError (JStr ''companyHandle cannot be changed'')), db)
      else case update_clause data of
             Inl e \<Rightarrow> (Inl e, db)
           | Inr (cs, vs) \<Rightarrow>
               (case find_job i db of
                  None \<Rightarrow> (Inl no_job, db)
                | Some j \<Rightarrow>
                    (case assign cs vs j of
                       None \<Rightarrow> (Inl (Unclassified ''store''), db)
                     | Some j' \<Rightarrow>
                         (Inr (job_json j'),
                          db\<lparr>jobs := map (\<lambda>x. if job_id x = job_id j then j' else x)
                                       (jobs db)\<rparr>))))"

text \<open>
  Modelled from the spec: \<^verbatim>\<open>update(id, data)\<close> of section 4.3; data that is not an object has
  no field to update.
\<close>

fun update_job :: "jsval \<Rightarrow> jsval \<Rightarrow> store \<Rightarrow> (error + jsval) \<times> store" where
  "update_job i (JObj data) db = update_fields i data db"
| "update_job i v db = (Inl (BadRequestError (JStr ''No data'')), db)"

text \<open>
  Modelled from the spec: \<^verbatim>\<open>create(data)\<close> of section 4.3 on the fields of \<^verbatim>\<open>data\<close>: it
  inserts a new row from \<^verbatim>\<open>{title, salary, equity, companyHandle}\<close> with an id assigned by
  the store and returns it; it fails with a NotFoundError if \<^verbatim>\<open>companyHandle\<close> names no
  existing company. Fields the store cannot read are an unclassified failure.
\<close>

definition create_fields :: "jsobj \<Rightarrow> store \<Rightarrow> (error + jsval) \<times> store" where
  "create_fields f db =
     (case (get_prop f ''title'', as_salary (get_prop f ''salary''),
            as_equity (get_prop f ''equity''), get_prop f ''companyHandle'') of
        (JStr t, Some s, Some e, JStr h) \<Rightarrow>
          if find (\<lambda>c. handle c = h) (companies db) = None
          then (Inl (NotFoundError (JStr ''No company'')), db)
          else (Inr (job_json \<lparr>job_id = next_id db, title = t, salary = s, equity = e,
                               companyHandle = h\<rparr>),
                db\<lparr>jobs := jobs db @ [\<lparr>job_id = next_id db, title = t, salary = s,
                                         equity = e, companyHandle = h\<rparr>],
                    next_id := next_id db + 1\<rparr>)
      | _ \<Rightarrow> (Inl (Unclassified ''store''), db))"

text \<open>
  Modelled from the spec: \<^verbatim>\<open>create(data)\<close> of section 4.3.
\<close>

fun create_job :: "jsval \<Rightarrow> store \<Rightarrow> (error + jsval) \<times> store" where
  "create_job (JObj f) db = create_fields f db"
| "create_job v db = (Inl (Unclassified ''store''), db)"

text \<open>
  Modelled from the spec: the Job repository of section 4.3, with its five operations.
\<close>

definition JobModel :: "store job_model" where
  "JobModel =
     \<lparr>create = create_job, findAll = findAll_jobs, get = get_job, update = update_job,
      remove = remove_job\<rparr>"

text \<open>
  Modelled from the spec: the referential integrity of section 3: every job has exactly
  one company.
\<close>

definition integrity :: "store \<Rightarrow> bool" where
  "integrity db =
     list_all (\<lambda>j. length (filter (\<lambda>c. handle c = companyHandle j) (companies db)) = 1)
       (jobs db)"

section \<open>Example collaborators and seed data\<close>

text \<open>
  Modelled from the spec: the three schema files are not in the source tree. This
  validator follows section 4.4: creation requires \<^verbatim>\<open>title\<close>, \<^verbatim>\<open>salary\<close>, \<^verbatim>\<open>equity\<close> and
  \<^verbatim>\<open>companyHandle\<close> with their types; an update allows only \<^verbatim>\<open>title\<close>, \<^verbatim>\<open>salary\<close> and
  \<^verbatim>\<open>equity\<close>, all optional; a search allows only \<^verbatim>\<open>minSalary\<close>, \<^verbatim>\<open>hasEquity\<close> and
  \<^verbatim>\<open>title\<close>. It instantiates the validator in the examples below.
\<close>

definition violation :: "string \<Rightarrow> string \<Rightarrow> validation_error" where
  "violation p m = \<lparr>property = p, message = m, stack = p @ '' '' @ m\<rparr>"

text \<open>
  Modelled from the spec: the JSON type \<^verbatim>\<open>string\<close> of a schema.
\<close>

fun is_string :: "jsval \<Rightarrow> bool" where
  "is_string (JStr s) = True"
| "is_string v = False"

text \<open>
  Modelled from the spec: the JSON type of a numeric field of a schema.
\<close>

fun is_number :: "jsval \<Rightarrow> bool" where
  "is_number (JNum (Num n)) = True"
| "is_number v = False"

text \<open>
  Modelled from the spec: the JSON type \<^verbatim>\<open>boolean\<close> of a schema.
\<close>

fun is_boolean :: "jsval \<Rightarrow> bool" where
  "is_boolean (JBool b) = True"
| "is_boolean v = False"

text \<open>
  Modelled from the spec: the violation of a required property that is missing.
\<close>

definition required :: "jsobj \<Rightarrow> string \<Rightarrow> validation_error list" where
  "required f k =
     (if get_prop f k = JUndefined then [violation ''instance'' (''requires property '' @ k)]
      else [])"

text \<open>
  Modelled from the spec: the violation of a property that is present with a wrong type.
\<close>

definition typed :: "jsobj \<Rightarrow> string \<Rightarrow> (jsval \<Rightarrow> bool) \<Rightarrow> string \<Rightarrow> validation_error list" where
  "typed f k ok tname =
     (if get_prop f k = JUndefined \<or> ok (get_prop f k) then []
      else [violation (''instance.'' @ k) (''is not of a type(s) '' @ tname)])"

text \<open>
  Modelled from the spec: the violations of a schema that rejects unknown keys.
\<close>

definition only_keys :: "jsobj \<Rightarrow> string list \<Rightarrow> validation_error list" where
  "only_keys f allowed =
     map (\<lambda>k. violation ''instance'' (''is not allowed to have the additional property '' @ k))
       (filter (\<lambda>k. k \<notin> set allowed) (map fst f))"

text \<open>
  Modelled from the spec: the violations of an object against each of the three schemas
  (section 4.4).
\<close>

fun object_violations :: "schema \<Rightarrow> jsobj \<Rightarrow> validation_error list" where
  "object_violations jobNewSchema f =
     required f ''title'' @ required f ''salary'' @ required f ''equity''
     @ required f ''companyHandle''
     @ typed f ''title'' is_string ''string'' @ typed f ''salary'' is_number ''integer''
     @ typed f ''equity'' is_string ''string'' @ typed f ''companyHandle'' is_string ''string''"
| "object_violations jobUpdateSchema f =
     only_keys f [''title'', ''salary'', ''equity'']
     @ typed f ''title'' is_string ''string'' @ typed f ''salary'' is_number ''integer''
     @ typed f ''equity'' is_string ''string''"
| "object_violations jobSearchSchema f =
     only_keys f [''minSalary'', ''hasEquity'', ''title'']
     @ typed f ''minSalary'' is_number ''integer'' @ typed f ''hasEquity'' is_boolean ''boolean''
     @ typed f ''title'' is_string ''string''"

text \<open>
  Modelled from the spec: the violations of any instance; every schema describes an
  object.
\<close>

fun schema_violations :: "jsval \<Rightarrow> schema \<Rightarrow> validation_error list" where
  "schema_violations (JObj f) s = object_violations s f"
| "schema_violations v s = [violation ''instance'' ''is not of a type(s) object'']"

text \<open>
  Modelled from the spec: the validator, in the shape \<^verbatim>\<open>{valid, errors}\<close> of section 6.
\<close>

definition schema_validate :: "jsval \<Rightarrow> schema \<Rightarrow> validator_result" where
  "schema_validate v s =
     \<lparr>valid = (schema_violations v s = []), errors = schema_violations v s\<rparr>"

text \<open>
  The number of a primitive value on the inputs of the examples: a short string of
  decimal digits is the number it spells, the empty string is 0, a number is itself,
  \<^verbatim>\<open>true\<close> is 1, \<^verbatim>\<open>false\<close> and \<^verbatim>\<open>null\<close> are 0 and \<^verbatim>\<open>undefined\<close> is \<^verbatim>\<open>NaN\<close>. On every other
  value this stand-in gives \<^verbatim>\<open>NaN\<close>, which is not what JavaScript does on, say, \<^verbatim>\<open>"1.5"\<close>
  or on digit strings too long for a double; the examples use no such input.
\<close>

fun plus_digits :: "jsval \<Rightarrow> jsnum" where
  "plus_digits (JStr s) =
     (if s = [] then Num 0
      else case digits_value 0 s of None \<Rightarrow> NaN | Some n \<Rightarrow> Num (of_nat n))"
| "plus_digits (JNum n) = n"
| "plus_digits (JBool b) = (if b then Num 1 else Num 0)"
| "plus_digits JNull = Num 0"
| "plus_digits v = NaN"

text \<open>
  The primitive value of an object or an array whose properties are data, as the query
  parser builds them. Of an object the inherited \<^verbatim>\<open>valueOf\<close> returns the object itself, and
  an own property named \<^verbatim>\<open>valueOf\<close> or \<^verbatim>\<open>toString\<close> is not callable; so the result is
  that of the inherited \<^verbatim>\<open>toString\<close>, the string \<^verbatim>\<open>[object Object]\<close>, unless an own property
  hides it, and then the conversion throws a TypeError. Of an array the result is the
  texts of its elements joined by commas; this stand-in is exact on strings, \<^verbatim>\<open>null\<close> and
  \<^verbatim>\<open>undefined\<close> as elements and takes every other element for the empty text, which is
  not what JavaScript does; the examples use no such input.
\<close>

fun element_text :: "jsval \<Rightarrow> string" where
  "element_text (JStr s) = s"
| "element_text v = []"

fun comma_join :: "string list \<Rightarrow> string" where
  "comma_join [] = []"
| "comma_join [s] = s"
| "comma_join (s # t # ts) = s @ '','' @ comma_join (t # ts)"

fun data_to_primitive :: "jsval \<Rightarrow> error + jsval" where
  "data_to_primitive (JObj ps) =
     (if map_of ps ''toString'' = None then Inr (JStr ''[object Object]'')
      else Inl (TypeError ''Cannot convert object to primitive value''))"
| "data_to_primitive (JArr xs) = Inr (JStr (comma_join (map element_text xs)))"
| "data_to_primitive v = Inr v"

definition example_deps :: "store deps" where
  "example_deps =
     \<lparr>jsonschema_validate = schema_validate, to_number = plus_digits,
      to_primitive = data_to_primitive, Job = JobModel\<rparr>"

text \<open>
  The query of \<^verbatim>\<open>GET /jobs?minSalary[toString]=x&hasEquity=true\<close>, and the query of
  \<^verbatim>\<open>GET /jobs?minSalary=2&hasEquity=yes\<close>.
\<close>

definition object_query :: jsobj where
  "object_query =
     [(''minSalary'', JObj [(''toString'', JStr ''x'')]), (''hasEquity'', JStr ''true'')]"

definition plain_query :: jsobj where
  "plain_query = [(''minSalary'', JStr ''2''), (''hasEquity'', JStr ''yes'')]"

text \<open>The seed data of the route tests: company \<^verbatim>\<open>c1\<close> with the jobs J1, J2 and J3.\<close>

definition seed_store :: store where
  "seed_store =
     \<lparr>jobs =
        [\<lparr>job_id = 1, title = ''J1'', salary = Some 1, equity = Some ''0.1'',
          companyHandle = ''c1''\<rparr>,
         \<lparr>job_id = 2, title = ''J2'', salary = Some 2, equity = Some ''0.2'',
          companyHandle = ''c1''\<rparr>,
         \<lparr>job_id = 3, title = ''J3'', salary = Some 3, equity = None,
          companyHandle = ''c1''\<rparr>],
      companies =
        [\<lparr>handle = ''c1'', name = ''C1'', description = ''Desc1'', numEmployees = Some 1,
          logoUrl = Some ''hhtp://c1.img''\<rparr>],
      next_id = 4\<rparr>"

definition example_request :: request where
  "example_request =
     \<lparr>verb = GET, path = Root, query = [], body = JObj [], params = [], is_admin = False\<rparr>"

text \<open>A valid creation payload for the company with handle \<open>h\<close>.\<close>

definition new_job :: "string \<Rightarrow> jsval" where
  "new_job h =
     JObj [(''companyHandle'', JStr h), (''title'', JStr ''J-new''),
           (''salary'', JNum (Num 10)), (''equity'', JStr ''0.2'')]"

text \<open>The responses of the error responder to an AuthorizationError and to \<open>no_job\<close>.\<close>

definition unauthorized :: response where
  "unauthorized =
     Response 401
       (JObj [(''error'', JObj [(''message'', JStr ''Unauthorized''),
                                (''status'', JNum (Num 401))])])"

definition not_found :: response where
  "not_found =
     Response 404
       (JObj [(''error'', JObj [(''message'', JStr ''No job''), (''status'', JNum (Num 404))])])"

section \<open>Evaluating the handlers\<close>

lemma apply_handler3: "apply_fn (handler3 b) [Req r, Res, Next] = b (env3 r)"
  by (simp add: apply_fn_def handler3_def env3_def)

lemma apply_handler0: "apply_fn (handler0 b) [Req r, Res, Next] = b []"
  by (simp add: apply_fn_def handler0_def)

lemma js_bind_Inr: "js_bind (Pair (Inr x)) f = f x"
  by (simp add: js_bind_def)

lemma js_bind_Inl: "js_bind (Pair (Inl e)) f = Pair (Inl e)"
  by (simp add: js_bind_def)

lemma js_try_Inl: "js_try (Pair (Inl e)) h = h e"
  by (simp add: js_try_def)

lemma js_try_Inr: "js_try (Pair (Inr x)) h = Pair (Inr x)"
  by (simp add: js_try_def)

lemma js_try_await:
  "js_try (js_bind (await_job c f) g) h (db, cs) =
     (case f db of (Inl e, db') \<Rightarrow> h e (db', cs @ [c])
                 | (Inr x, db') \<Rightarrow> js_try (g x) h (db', cs @ [c]))"
  by (simp add: js_try_def js_bind_def await_job_def split: prod.splits sum.splits)

lemma js_of_Inr: "js_of (Inr v) = Pair (Inr v)"
  by (simp add: js_of_def js_return_def)

lemma js_of_Inl: "js_of (Inl e) = Pair (Inl e)"
  by (simp add: js_of_def js_throw_def)

lemmas js_simps =
  js_return_def js_throw_def js_bind_Inr js_bind_Inl js_try_Inl js_try_Inr js_try_await
  js_of_Inr js_of_Inl ident_def catch_next_def env3_def res_json_def Let_def

lemma unary_plus_string: "unary_plus d (JStr s) = Inr (to_number d (JStr s))"
  by (simp add: unary_plus_def)

lemma patch_id_empty: "patch_id d [] w = (Inl (ReferenceError ''next''), w)"
  by (simp add: patch_id_def js_simps)

lemma get_root_try_env3:
  "get_root_try d (env3 r) q w =
     (Inr (NextCalled (Some (BadRequestError
        (error_stacks (jsonschema_validate d (JObj q) jobSearchSchema))))), w)"
  by (simp add: get_root_try_def vr_get_def js_simps)

lemma get_root_env3:
  "get_root d (env3 r) w =
     (case coerce_query d (query r) of
        Inl e \<Rightarrow> (Inl e, w)
      | Inr q \<Rightarrow> get_root_try d (env3 r) q w)"
  by (cases "coerce_query d (query r)") (simp_all add: get_root_def js_simps)

lemma get_root_outcome:
  "apply_fn (handler3 (get_root d)) [Req r, Res, Next] w =
     (case coerce_query d (query r) of
        Inl e \<Rightarrow> (Inl e, w)
      | Inr q \<Rightarrow>
          (Inr (NextCalled (Some (BadRequestError
             (error_stacks (jsonschema_validate d (JObj q) jobSearchSchema))))), w))"
  by (cases "coerce_query d (query r)")
     (simp_all add: apply_handler3 get_root_env3 get_root_try_env3)

lemma post_root_env3:
  "post_root d (env3 r) (db, cs) =
     (if \<not> valid (jsonschema_validate d (body r) jobNewSchema) then
        (Inr (NextCalled (Some (BadRequestError
           (error_stacks (jsonschema_validate d (body r) jobNewSchema))))), (db, cs))
      else
        (case create (Job d) (body r) db of
           (Inl e, db') \<Rightarrow> (Inr (NextCalled (Some e)), (db', cs @ [CallCreate (body r)]))
         | (Inr job, db') \<Rightarrow>
             (Inr (Sent 201 (JObj [(''job'', job)])), (db', cs @ [CallCreate (body r)]))))"
proof (cases "create (Job d) (body r) db")
  case (Pair res db')
  then show ?thesis
    by (cases res) (simp_all add: post_root_def vr_get_def js_simps)
qed

lemma get_id_env3:
  "get_id d (env3 r) (db, cs) =
     (case get (Job d) (get_prop (params r) ''id'') db of
        (Inl e, db') \<Rightarrow>
          (Inr (NextCalled (Some e)), (db', cs @ [CallGet (get_prop (params r) ''id'')]))
      | (Inr job, db') \<Rightarrow>
          (Inr (Sent 200 (JObj [(''job'', job)])),
           (db', cs @ [CallGet (get_prop (params r) ''id'')])))"
proof (cases "get (Job d) (get_prop (params r) ''id'') db")
  case (Pair res db')
  then show ?thesis
    by (cases res) (simp_all add: get_id_def js_simps)
qed

lemma delete_id_env3:
  assumes "get_prop (params r) ''id'' = JStr s"
  shows "delete_id d (env3 r) (db, cs) =
     (case remove (Job d) (JStr s) db of
        (Inl e, db') \<Rightarrow> (Inr (NextCalled (Some e)), (db', cs @ [CallRemove (JStr s)]))
      | (Inr u, db') \<Rightarrow>
          (Inr (Sent 200 (JObj [(''deleted'', JNum (to_number d (JStr s)))])),
           (db', cs @ [CallRemove (JStr s)])))"
proof (cases "remove (Job d) (JStr s) db")
  case (Pair res db')
  with assms show ?thesis
    by (cases res) (simp_all add: delete_id_def unary_plus_string js_simps)
qed

lemma ensureAdmin_apply:
  "apply_fn ensureAdmin [Req r, Res, Next] w =
     (Inr (NextCalled (if is_admin r then None else Some AuthorizationError)), w)"
  by (simp add: apply_fn_def ensureAdmin_def ensureAdmin_code_def js_simps)

section \<open>Evaluating the router\<close>

lemma serve_get_root:
  assumes "verb r = GET" "path r = Root"
  shows "serve d r w =
     (case coerce_query d (query r) of
        Inl e \<Rightarrow> (Unhandled e, w)
      | Inr q \<Rightarrow>
          (error_responder (BadRequestError (error_stacks
             (jsonschema_validate d (JObj q) jobSearchSchema))), w))"
  using assms
  by (cases "coerce_query d (query r)")
     (simp_all add: serve_def router_def get_root_outcome error_responder_def)

lemma serve_patch_admin:
  assumes "verb r = PATCH" "path r = Seg s" "is_admin r"
  shows "serve d r w = (Unhandled (ReferenceError ''next''), w)"
  using assms
  by (simp add: serve_def router_def ensureAdmin_apply apply_handler0 patch_id_empty)

lemma serve_not_admin:
  assumes "\<not> is_admin r"
    and "verb r = POST \<and> path r = Root \<or> verb r = PATCH \<and> path r = Seg s
         \<or> verb r = DELETE \<and> path r = Seg s"
  shows "serve d r w = (error_responder AuthorizationError, w)"
  using assms
  by (auto simp add: serve_def router_def ensureAdmin_apply error_responder_def)

lemma serve_delete_admin:
  assumes "verb r = DELETE" "path r = Seg s" "is_admin r"
  shows "serve d r (db, cs) =
     (case remove (Job d) (JStr s) db of
        (Inl e, db') \<Rightarrow> (error_responder e, (db', cs @ [CallRemove (JStr s)]))
      | (Inr u, db') \<Rightarrow>
          (Response 200 (JObj [(''deleted'', JNum (to_number d (JStr s)))]),
           (db', cs @ [CallRemove (JStr s)])))"
proof (cases "remove (Job d) (JStr s) db")
  case (Pair res db')
  with assms show ?thesis
    by (cases res)
       (simp_all add: serve_def router_def ensureAdmin_apply apply_handler3
          delete_id_env3 [where s = s] get_prop_def error_responder_def)
qed

lemma serve_get_id:
  assumes "verb r = GET" "path r = Seg s"
  shows "serve d r (db, cs) =
     (case get (Job d) (JStr s) db of
        (Inl e, db') \<Rightarrow> (error_responder e, (db', cs @ [CallGet (JStr s)]))
      | (Inr job, db') \<Rightarrow>
          (Response 200 (JObj [(''job'', job)]), (db', cs @ [CallGet (JStr s)])))"
proof (cases "get (Job d) (JStr s) db")
  case (Pair res db')
  with assms show ?thesis
    by (cases res)
       (simp_all add: serve_def router_def apply_handler3 get_id_env3 get_prop_def
          error_responder_def)
qed

lemma serve_post_admin:
  assumes "verb r = POST" "path r = Root" "is_admin r"
  shows "serve d r (db, cs) =
     (if \<not> valid (jsonschema_validate d (body r) jobNewSchema) then
        (error_responder (BadRequestError
           (error_stacks (jsonschema_validate d (body r) jobNewSchema))), (db, cs))
      else
        (case create (Job d) (body r) db of
           (Inl e, db') \<Rightarrow> (error_responder e, (db', cs @ [CallCreate (body r)]))
         | (Inr job, db') \<Rightarrow>
             (Response 201 (JObj [(''job'', job)]), (db', cs @ [CallCreate (body r)]))))"
proof (cases "create (Job d) (body r) db")
  case (Pair res db')
  with assms show ?thesis
    by (cases res)
       (simp_all add: serve_def router_def ensureAdmin_apply apply_handler3 post_root_env3
          error_responder_def)
qed

section \<open>The query coercion of \<^verbatim>\<open>GET /jobs\<close>\<close>

lemma get_prop_set_prop:
  "get_prop (set_prop obj k v) k' = (if k' = k then v else get_prop obj k')"
  by (simp add: get_prop_def set_prop_def update_conv')

lemma get_prop_Nil: "get_prop [] k = JUndefined"
  by (simp add: get_prop_def)

lemma keys_set_prop: "fst ` set (set_prop obj k v) = insert k (fst ` set obj)"
  by (simp add: set_prop_def update_conv' flip: dom_map_of_conv_image_fst)

lemma coerce_hasEquity_value:
  "get_prop (coerce_hasEquity q) ''hasEquity'' = JBool (get_prop q ''hasEquity'' = JStr ''true'')"
  by (simp add: coerce_hasEquity_def get_prop_set_prop)

lemma coerce_hasEquity_other:
  "k \<noteq> ''hasEquity'' \<Longrightarrow> get_prop (coerce_hasEquity q) k = get_prop q k"
  by (simp add: coerce_hasEquity_def get_prop_set_prop)

lemma coerce_hasEquity_key: "''hasEquity'' \<in> fst ` set (coerce_hasEquity q)"
  by (simp add: coerce_hasEquity_def keys_set_prop)

lemma unary_plus_undefined: "unary_plus d JUndefined = Inr (to_number d JUndefined)"
  by (simp add: unary_plus_def)

lemma coerce_query_returns:
  assumes "unary_plus d (get_prop q ''minSalary'') = Inr n"
  shows "coerce_query d q =
     Inr (coerce_hasEquity
            (if get_prop q ''minSalary'' = JUndefined then q
             else set_prop q ''minSalary'' (JNum n)))"
  using assms by (simp add: coerce_query_def coerce_minSalary_def)

lemma coerce_query_throws:
  assumes "unary_plus d (get_prop q ''minSalary'') = Inl e"
  shows "coerce_query d q = Inl e"
proof -
  from assms have "get_prop q ''minSalary'' \<noteq> JUndefined"
    by (auto simp add: unary_plus_undefined)
  with assms show ?thesis
    by (simp add: coerce_query_def coerce_minSalary_def)
qed

lemma coerce_query_hasEquity:
  assumes "coerce_query d q = Inr q'"
  shows "get_prop q' ''hasEquity'' = JBool (get_prop q ''hasEquity'' = JStr ''true'')"
    and "''hasEquity'' \<in> fst ` set q'"
proof -
  from assms obtain q1 where q1: "coerce_minSalary d q = Inr q1" and q': "q' = coerce_hasEquity q1"
    by (auto simp add: coerce_query_def split: sum.splits)
  from q1 have "get_prop q1 ''hasEquity'' = get_prop q ''hasEquity''"
    by (auto simp add: coerce_minSalary_def get_prop_set_prop split: if_splits sum.splits)
  with q' show "get_prop q' ''hasEquity'' = JBool (get_prop q ''hasEquity'' = JStr ''true'')"
    by (simp add: coerce_hasEquity_value)
  from q' show "''hasEquity'' \<in> fst ` set q'"
    by (simp add: coerce_hasEquity_key)
qed

text \<open>Unfolding the example collaborators and the seed data.\<close>

lemmas example_simps =
  example_deps_def example_request_def seed_store_def JobModel_def new_job_def
  schema_validate_def required_def typed_def only_keys_def violation_def get_prop_def
  create_fields_def job_json_def json_int_def json_opt_int_def json_opt_str_def
  find_job_def get_job_def remove_job_def update_fields_def update_clause_def column_of_def
  digit_of_def joined_def no_job_def error_responder_def

lemmas coerce_simps =
  coerce_query_def coerce_minSalary_def coerce_hasEquity_def unary_plus_def set_prop_def
  object_query_def plain_query_def

text \<open>
  C7 as stated fails. The query of \<^verbatim>\<open>GET /jobs?minSalary[toString]=x&hasEquity=true\<close>
  has a \<^verbatim>\<open>minSalary\<close> with no numeric coercion: the unary plus of line 57 throws a
  TypeError before the \<^verbatim>\<open>try\<close> block. Nothing is replaced, \<^verbatim>\<open>hasEquity\<close> is never set
  although the query value is \<^verbatim>\<open>"true"\<close>, nothing is validated, and the promise of the
  handler rejects.
\<close>

theorem get_jobs_query_coercion_counterexample:
  "get_prop object_query ''hasEquity'' = JStr ''true''
   \<and> coerce_query example_deps object_query =
       Inl (TypeError ''Cannot convert object to primitive value'')
   \<and> serve example_deps (example_request\<lparr>query := object_query\<rparr>) (seed_store, []) =
       (Unhandled (TypeError ''Cannot convert object to primitive value''), (seed_store, []))"
proof -
  have c: "coerce_query example_deps object_query =
       Inl (TypeError ''Cannot convert object to primitive value'')"
    by (simp add: coerce_simps example_simps)
  have "serve example_deps (example_request\<lparr>query := object_query\<rparr>) (seed_store, []) =
       (Unhandled (TypeError ''Cannot convert object to primitive value''), (seed_store, []))"
    using serve_get_root [of "example_request\<lparr>query := object_query\<rparr>" example_deps
        "(seed_store, [])"] c
    by (simp add: example_request_def)
  with c show ?thesis
    by (simp add: object_query_def get_prop_def)
qed

text \<open>
  C7, amended. For every \<^verbatim>\<open>GET /jobs\<close> request whose \<^verbatim>\<open>minSalary\<close> has a numeric
  coercion (the unary plus returns a number, as it always does on a string, the value of a
  plain \<^verbatim>\<open>?minSalary=...\<close>), the handler coerces the query before the schema validation:
  a \<^verbatim>\<open>minSalary\<close> that is present is replaced by its numeric coercion (an absent one stays
  absent), and \<^verbatim>\<open>hasEquity\<close> becomes \<^verbatim>\<open>true\<close> exactly when the query value is the string
  \<^verbatim>\<open>"true"\<close> and \<^verbatim>\<open>false\<close> for every other value, absence included; the validator then
  runs on the coerced object, the instance whose violations the handler hands to
  \<^verbatim>\<open>next\<close>. When the unary plus throws, the handler rejects with that error before any
  validation.
\<close>

theorem get_jobs_query_coercion:
  "(unary_plus d (get_prop (query r) ''minSalary'') = Inr n \<longrightarrow>
      (\<exists>q'. coerce_query d (query r) = Inr q'
         \<and> get_prop q' ''minSalary'' =
             (if get_prop (query r) ''minSalary'' = JUndefined then JUndefined else JNum n)
         \<and> get_prop q' ''hasEquity'' = JBool (get_prop (query r) ''hasEquity'' = JStr ''true'')
         \<and> apply_fn (handler3 (get_root d)) [Req r, Res, Next] w =
             (Inr (NextCalled (Some (BadRequestError (error_stacks
                (jsonschema_validate d (JObj q') jobSearchSchema))))), w)))
   \<and> (unary_plus d (get_prop (query r) ''minSalary'') = Inl e \<longrightarrow>
        coerce_query d (query r) = Inl e
        \<and> apply_fn (handler3 (get_root d)) [Req r, Res, Next] w = (Inl e, w))
   \<and> unary_plus d (JStr s) = Inr (to_number d (JStr s))"
proof (intro conjI impI)
  assume n: "unary_plus d (get_prop (query r) ''minSalary'') = Inr n"
  let ?q' = "coerce_hasEquity
            (if get_prop (query r) ''minSalary'' = JUndefined then query r
             else set_prop (query r) ''minSalary'' (JNum n))"
  have c: "coerce_query d (query r) = Inr ?q'"
    using n by (rule coerce_query_returns)
  have "get_prop ?q' ''minSalary'' =
      (if get_prop (query r) ''minSalary'' = JUndefined then JUndefined else JNum n)"
    by (simp add: coerce_hasEquity_other get_prop_set_prop)
  moreover
  have "get_prop ?q' ''hasEquity'' = JBool (get_prop (query r) ''hasEquity'' = JStr ''true'')"
    using c by (rule coerce_query_hasEquity(1))
  moreover
  have "apply_fn (handler3 (get_root d)) [Req r, Res, Next] w =
      (Inr (NextCalled (Some (BadRequestError (error_stacks
         (jsonschema_validate d (JObj ?q') jobSearchSchema))))), w)"
    by (simp add: get_root_outcome c)
  ultimately
  show "\<exists>q'. coerce_query d (query r) = Inr q'
         \<and> get_prop q' ''minSalary'' =
             (if get_prop (query r) ''minSalary'' = JUndefined then JUndefined else JNum n)
         \<and> get_prop q' ''hasEquity'' = JBool (get_prop (query r) ''hasEquity'' = JStr ''true'')
         \<and> apply_fn (handler3 (get_root d)) [Req r, Res, Next] w =
             (Inr (NextCalled (Some (BadRequestError (error_stacks
                (jsonschema_validate d (JObj q') jobSearchSchema))))), w)"
    using c by blast
next
  assume e: "unary_plus d (get_prop (query r) ''minSalary'') = Inl e"
  then show c: "coerce_query d (query r) = Inl e"
    by (rule coerce_query_throws)
  show "apply_fn (handler3 (get_root d)) [Req r, Res, Next] w = (Inl e, w)"
    by (simp add: get_root_outcome c)
next
  show "unary_plus d (JStr s) = Inr (to_number d (JStr s))"
    by (rule unary_plus_string)
qed

text \<open>
  The query of \<^verbatim>\<open>GET /jobs?minSalary=2&hasEquity=yes\<close> is coerced to
  \<^verbatim>\<open>{minSalary: 2, hasEquity: false}\<close> and validated; on the query of
  \<^verbatim>\<open>GET /jobs?minSalary[toString]=x&hasEquity=true\<close> the handler rejects.
\<close>

theorem get_jobs_query_coercion_witness:
  "unary_plus example_deps (get_prop plain_query ''minSalary'') = Inr (Num 2)
   \<and> coerce_query example_deps plain_query =
       Inr [(''minSalary'', JNum (Num 2)), (''hasEquity'', JBool False)]
   \<and> apply_fn (handler3 (get_root example_deps))
         [Req (example_request\<lparr>query := plain_query\<rparr>), Res, Next] (seed_store, []) =
       (Inr (NextCalled (Some (BadRequestError (error_stacks
          (jsonschema_validate example_deps
             (JObj [(''minSalary'', JNum (Num 2)), (''hasEquity'', JBool False)])
             jobSearchSchema))))), (seed_store, []))
   \<and> unary_plus example_deps (get_prop object_query ''minSalary'') =
       Inl (TypeError ''Cannot convert object to primitive value'')
   \<and> apply_fn (handler3 (get_root example_deps))
         [Req (example_request\<lparr>query := object_query\<rparr>), Res, Next] (seed_store, []) =
       (Inl (TypeError ''Cannot convert object to primitive value''), (seed_store, []))"
proof -
  have n: "unary_plus example_deps
      (get_prop (query (example_request\<lparr>query := plain_query\<rparr>)) ''minSalary'') = Inr (Num 2)"
    by (simp add: coerce_simps example_simps)
  have c: "coerce_query example_deps plain_query =
       Inr [(''minSalary'', JNum (Num 2)), (''hasEquity'', JBool False)]"
    by (simp add: coerce_simps example_simps)
  have e: "unary_plus example_deps
      (get_prop (query (example_request\<lparr>query := object_query\<rparr>)) ''minSalary'') =
       Inl (TypeError ''Cannot convert object to primitive value'')"
    by (simp add: coerce_simps example_simps)
  from get_jobs_query_coercion
         [of example_deps "example_request\<lparr>query := plain_query\<rparr>" "Num 2" "(seed_store, [])"]
       n c
  have 1: "apply_fn (handler3 (get_root example_deps))
         [Req (example_request\<lparr>query := plain_query\<rparr>), Res, Next] (seed_store, []) =
       (Inr (NextCalled (Some (BadRequestError (error_stacks
          (jsonschema_validate example_deps
             (JObj [(''minSalary'', JNum (Num 2)), (''hasEquity'', JBool False)])
             jobSearchSchema))))), (seed_store, []))"
    by auto
  from get_jobs_query_coercion
         [of example_deps "example_request\<lparr>query := object_query\<rparr>" _ "(seed_store, [])"
            "TypeError ''Cannot convert object to primitive value''"]
       e
  have 2: "apply_fn (handler3 (get_root example_deps))
         [Req (example_request\<lparr>query := object_query\<rparr>), Res, Next] (seed_store, []) =
       (Inl (TypeError ''Cannot convert object to primitive value''), (seed_store, []))"
    by blast
  from n c e 1 2 show ?thesis
    by simp
qed

text \<open>
  C10 as stated fails. The request \<^verbatim>\<open>GET /jobs?minSalary[toString]=x\<close> has no
  \<^verbatim>\<open>hasEquity\<close> parameter, yet it is not passed on with \<^verbatim>\<open>hasEquity\<close> set to \<^verbatim>\<open>false\<close>: the
  handler rejects at line 57 and passes nothing on. And a plain \<^verbatim>\<open>GET /jobs\<close> is validated
  with \<^verbatim>\<open>{hasEquity: false}\<close> but never passed to \<^verbatim>\<open>Job.findAll\<close>: the log of model calls
  stays empty.
\<close>

theorem get_jobs_hasEquity_counterexample:
  "get_prop [(''minSalary'', JObj [(''toString'', JStr ''x'')])] ''hasEquity'' = JUndefined
   \<and> serve example_deps
       (example_request\<lparr>query := [(''minSalary'', JObj [(''toString'', JStr ''x'')])]\<rparr>)
       (seed_store, []) =
     (Unhandled (TypeError ''Cannot convert object to primitive value''), (seed_store, []))
   \<and> snd (serve example_deps example_request (seed_store, [])) = (seed_store, [])"
proof -
  have c: "coerce_query example_deps [(''minSalary'', JObj [(''toString'', JStr ''x'')])] =
       Inl (TypeError ''Cannot convert object to primitive value'')"
    by (simp add: coerce_simps example_simps)
  have 1: "serve example_deps
       (example_request\<lparr>query := [(''minSalary'', JObj [(''toString'', JStr ''x'')])]\<rparr>)
       (seed_store, []) =
     (Unhandled (TypeError ''Cannot convert object to primitive value''), (seed_store, []))"
    using serve_get_root
        [of "example_request\<lparr>query := [(''minSalary'', JObj [(''toString'', JStr ''x'')])]\<rparr>"
          example_deps "(seed_store, [])"] c
    by (simp add: example_request_def)
  have g: "verb example_request = GET" "path example_request = Root"
    by (simp_all add: example_request_def)
  have "coerce_query example_deps (query example_request) = Inr [(''hasEquity'', JBool False)]"
    by (simp add: coerce_simps example_simps)
  then have 2: "snd (serve example_deps example_request (seed_store, [])) = (seed_store, [])"
    by (simp add: serve_get_root [OF g])
  from 1 2 show ?thesis
    by (simp add: get_prop_def)
qed

text \<open>
  C10, amended. For every \<^verbatim>\<open>GET /jobs\<close> request whose coercion does not throw, the
  object that the handler passes to the validator always has the key \<^verbatim>\<open>hasEquity\<close>, with
  a boolean value: \<^verbatim>\<open>true\<close> for the query value \<^verbatim>\<open>"true"\<close>, and \<^verbatim>\<open>false\<close>, not an absent
  key, for every other query, also one with no \<^verbatim>\<open>hasEquity\<close> at all. The validator runs
  on that object: its violations are the message of the response.
\<close>

theorem get_jobs_hasEquity_always_boolean:
  assumes "coerce_query d (query r) = Inr q'"
  shows "''hasEquity'' \<in> fst ` set q'
   \<and> get_prop q' ''hasEquity'' =
       (if get_prop (query r) ''hasEquity'' = JStr ''true'' then JBool True else JBool False)
   \<and> serve d (r\<lparr>verb := GET, path := Root\<rparr>) w =
       (Response 400
          (JObj [(''error'',
             JObj [(''message'', JArr (map (\<lambda>e. JStr (stack e))
                      (errors (jsonschema_validate d (JObj q') jobSearchSchema)))),
                   (''status'', JNum (Num 400))])]),
        w)"
proof -
  have "get_prop q' ''hasEquity'' =
       (if get_prop (query r) ''hasEquity'' = JStr ''true'' then JBool True else JBool False)"
    using coerce_query_hasEquity(1) [OF assms] by simp
  moreover
  have "serve d (r\<lparr>verb := GET, path := Root\<rparr>) w =
       (Response 400
          (JObj [(''error'',
             JObj [(''message'', JArr (map (\<lambda>e. JStr (stack e))
                      (errors (jsonschema_validate d (JObj q') jobSearchSchema)))),
                   (''status'', JNum (Num 400))])]),
        w)"
    using assms by (simp add: serve_get_root error_responder_def error_stacks_def)
  ultimately show ?thesis
    using coerce_query_hasEquity(2) [OF assms] by simp
qed

text \<open>
  A plain \<^verbatim>\<open>GET /jobs\<close> is validated as \<^verbatim>\<open>{hasEquity: false}\<close>, and
  \<^verbatim>\<open>GET /jobs?minSalary=2&hasEquity=yes\<close> as \<^verbatim>\<open>{minSalary: 2, hasEquity: false}\<close>.
\<close>

theorem get_jobs_hasEquity_always_boolean_witness:
  "coerce_query example_deps (query example_request) = Inr [(''hasEquity'', JBool False)]
   \<and> get_prop (query example_request) ''hasEquity'' = JUndefined
   \<and> get_prop [(''hasEquity'', JBool False)] ''hasEquity'' = JBool False
   \<and> serve example_deps example_request (seed_store, []) =
       (Response 400
          (JObj [(''error'',
             JObj [(''message'', JArr (map (\<lambda>e. JStr (stack e))
                      (errors (jsonschema_validate example_deps
                         (JObj [(''hasEquity'', JBool False)]) jobSearchSchema)))),
                   (''status'', JNum (Num 400))])]),
        (seed_store, []))"
proof -
  have c: "coerce_query example_deps (query example_request) =
      Inr [(''hasEquity'', JBool False)]"
    by (simp add: coerce_simps example_simps)
  have r: "example_request\<lparr>verb := GET, path := Root\<rparr> = example_request"
    by (simp add: example_request_def)
  have u: "get_prop (query example_request) ''hasEquity'' = JUndefined"
    by (simp add: example_request_def get_prop_def)
  from get_jobs_hasEquity_always_boolean [OF c, of "(seed_store, [])"] c r u
  show ?thesis by simp
qed

section \<open>The list route never reaches the model\<close>

text \<open>
  C1, as the code behaves. The handler of \<^verbatim>\<open>GET /jobs\<close> tests \<^verbatim>\<open>!validator.validate\<close>,
  and a validator result has no property \<^verbatim>\<open>validate\<close>: the test is true for every
  request that reaches it. So every request to \<^verbatim>\<open>GET /jobs\<close> whose coercion returns, also
  one whose coerced query passes the search schema (no violations), is answered 400 with
  the list of violations as message (a request whose coercion throws is left unanswered by
  the handler), and \<^verbatim>\<open>Job.findAll\<close> is never called: the store and the log of calls are
  unchanged. So it is for \<^verbatim>\<open>GET /jobs\<close> without a query on the seed data, where the
  coerced query \<^verbatim>\<open>{hasEquity: false}\<close> is valid.
\<close>

theorem get_jobs_list_always_bad_request:
  "serve d (r\<lparr>verb := GET, path := Root\<rparr>) w =
     (case coerce_query d (query r) of
        Inl e \<Rightarrow> (Unhandled e, w)
      | Inr q \<Rightarrow>
          (Response 400
             (JObj [(''error'',
                JObj [(''message'', JArr (map (\<lambda>e. JStr (stack e))
                         (errors (jsonschema_validate d (JObj q) jobSearchSchema)))),
                      (''status'', JNum (Num 400))])]),
           w))
   \<and> coerce_query example_deps (query example_request) = Inr [(''hasEquity'', JBool False)]
   \<and> valid (jsonschema_validate example_deps (JObj [(''hasEquity'', JBool False)])
         jobSearchSchema)
   \<and> serve example_deps example_request (seed_store, []) =
     (Response 400
        (JObj [(''error'', JObj [(''message'', JArr []), (''status'', JNum (Num 400))])]),
      (seed_store, []))"
proof -
  have c: "coerce_query example_deps (query example_request) =
      Inr [(''hasEquity'', JBool False)]"
    by (simp add: coerce_simps example_simps)
  have v: "valid (jsonschema_validate example_deps (JObj [(''hasEquity'', JBool False)])
         jobSearchSchema)"
    by (simp add: example_simps)
  have g: "verb example_request = GET" "path example_request = Root"
    by (simp_all add: example_request_def)
  have "serve example_deps example_request (seed_store, []) =
     (Response 400
        (JObj [(''error'', JObj [(''message'', JArr []), (''status'', JNum (Num 400))])]),
      (seed_store, []))"
    using serve_get_root [OF g, of example_deps "(seed_store, [])"] c
    by (simp add: error_stacks_def example_simps)
  moreover
  have "serve d (r\<lparr>verb := GET, path := Root\<rparr>) w =
     (case coerce_query d (query r) of
        Inl e \<Rightarrow> (Unhandled e, w)
      | Inr q \<Rightarrow>
          (Response 400
             (JObj [(''error'',
                JObj [(''message'', JArr (map (\<lambda>e. JStr (stack e))
                         (errors (jsonschema_validate d (JObj q) jobSearchSchema)))),
                      (''status'', JNum (Num 400))])]),
           w))"
    by (cases "coerce_query d (query r)")
       (simp_all add: serve_get_root error_responder_def error_stacks_def)
  ultimately show ?thesis
    using c v by simp
qed

section \<open>The update route never reaches the model\<close>

text \<open>
  C2, as the code behaves. The handler of \<^verbatim>\<open>PATCH /jobs/:id\<close> is declared as
  \<^verbatim>\<open>async function ()\<close>, so \<^verbatim>\<open>req\<close>, \<^verbatim>\<open>res\<close> and \<^verbatim>\<open>next\<close> are unbound in its body. For
  every admin request, whatever the body and the id, the promise of the handler rejects
  with a ReferenceError: \<^verbatim>\<open>Job.update\<close> is not called, and the handler sends neither
  200, nor 400, nor 404. So it is for the admin request \<^verbatim>\<open>PATCH /jobs/1\<close> with the valid
  body \<^verbatim>\<open>{title: "J-New"}\<close> on the seed data, where job 1 exists.
\<close>

theorem patch_job_admin_never_updates:
  "serve d (r\<lparr>verb := PATCH, path := Seg s, is_admin := True\<rparr>) w =
     (Unhandled (ReferenceError ''next''), w)
   \<and> valid (jsonschema_validate example_deps (JObj [(''title'', JStr ''J-New'')])
         jobUpdateSchema)
   \<and> find_job (JStr ''1'') seed_store \<noteq> None
   \<and> serve example_deps
       (example_request\<lparr>verb := PATCH, path := Seg ''1'', is_admin := True,
          body := JObj [(''title'', JStr ''J-New'')]\<rparr>)
       (seed_store, []) =
     (Unhandled (ReferenceError ''next''), (seed_store, []))"
  by (simp add: serve_patch_admin [where s = s] serve_patch_admin [where s = "''1''"]
      example_simps)

text \<open>
  C9, as the code behaves. In the handler of \<^verbatim>\<open>PATCH /jobs/:id\<close> the error raised in the
  \<^verbatim>\<open>try\<close> block (the unbound \<^verbatim>\<open>req\<close>) is caught, but the \<^verbatim>\<open>catch\<close> block calls the
  unbound \<^verbatim>\<open>next\<close>: a second ReferenceError escapes the handler, and nothing is forwarded
  to the error responder.
\<close>

theorem patch_handler_error_escapes:
  "apply_fn (handler0 (patch_id d)) [Req r, Res, Next] w = (Inl (ReferenceError ''next''), w)
   \<and> ident [] ''req'' w = (Inl (ReferenceError ''req''), w)
   \<and> catch_next [] (ReferenceError ''req'') w = (Inl (ReferenceError ''next''), w)"
  by (simp add: apply_handler0 patch_id_empty js_simps)

section \<open>The Job model of the specification\<close>

lemma joined_rows:
  "list_all (\<lambda>j. length (filter (\<lambda>c. handle c = companyHandle j) cs) = 1) js \<Longrightarrow>
   map fst (concat (map (\<lambda>j. map (Pair j) (filter (\<lambda>c. handle c = companyHandle j) cs)) js)) = js"
proof (induction js)
  case Nil
  then show ?case by simp
next
  case (Cons j js)
  then have "length (filter (\<lambda>c. handle c = companyHandle j) cs) = 1" by simp
  then obtain c where "filter (\<lambda>c. handle c = companyHandle j) cs = [c]"
    by (cases "filter (\<lambda>c. handle c = companyHandle j) cs") auto
  with Cons show ?case by simp
qed

lemma joined_jobs: "integrity db \<Longrightarrow> map fst (joined db) = jobs db"
  by (simp add: integrity_def joined_def joined_rows)

lemma fst_joined: "(j, c) \<in> set (joined db) \<Longrightarrow> j \<in> set (jobs db)"
  by (auto simp add: joined_def)

lemma selected_rows:
  "mset (map fst (selected f db)) =
     mset (filter (row_holds (fst (filter_clause f)) (snd (filter_clause f)))
             (map fst (joined db)))"
  by (simp add: selected_def filter_map comp_def)

lemma sorted_selected: "sorted (map (\<lambda>jc. title (fst jc)) (selected f db))"
  by (simp add: selected_def)

lemma filter_clause_equity_only:
  assumes "get_prop f ''minSalary'' = JUndefined" "get_prop f ''title'' = JUndefined"
  shows "filter_clause f =
     (if get_prop f ''hasEquity'' = JBool True then [EquityPositive] else [], [])"
  using assms by (simp add: filter_clause_def)

text \<open>
  C8. On a store with referential integrity, \<^verbatim>\<open>findAll\<close> with \<^verbatim>\<open>hasEquity\<close> true (and no
  other filter) returns exactly the jobs whose equity is strictly greater than zero; with
  \<^verbatim>\<open>hasEquity\<close> false or omitted it returns all jobs, whatever their equity. Either way
  the result is the listing of the selected rows, ordered by title.
\<close>

theorem findAll_hasEquity:
  assumes "integrity db"
    and "get_prop f ''minSalary'' = JUndefined"
    and "get_prop f ''title'' = JUndefined"
  shows "findAll JobModel f db = (Inr (JArr (map job_listing (selected f db))), db)
     \<and> mset (map fst (selected f db)) =
         (if get_prop f ''hasEquity'' = JBool True
          then mset (filter equity_positive (jobs db))
          else mset (jobs db))
     \<and> sorted (map (\<lambda>jc. title (fst jc)) (selected f db))"
proof -
  have fc: "filter_clause f =
     (if get_prop f ''hasEquity'' = JBool True then [EquityPositive] else [], [])"
    using assms(2,3) by (rule filter_clause_equity_only)
  have "findAll JobModel f db = (Inr (JArr (map job_listing (selected f db))), db)"
    by (simp add: JobModel_def findAll_jobs_def fc)
  moreover have "mset (map fst (selected f db)) =
         (if get_prop f ''hasEquity'' = JBool True
          then mset (filter equity_positive (jobs db))
          else mset (jobs db))"
  proof -
    have "mset (map fst (selected f db)) =
        mset (filter (row_holds (fst (filter_clause f)) (snd (filter_clause f))) (jobs db))"
      using assms(1) by (simp only: selected_rows joined_jobs)
    also have "\<dots> = (if get_prop f ''hasEquity'' = JBool True
          then mset (filter equity_positive (jobs db))
          else mset (jobs db))"
      by (simp add: fc cong: filter_cong)
    finally show ?thesis .
  qed
  ultimately show ?thesis
    by (simp add: sorted_selected)
qed

text \<open>
  On the seed data \<^verbatim>\<open>hasEquity\<close> true selects J1 and J2, and not J3, which has no equity.
\<close>

theorem findAll_hasEquity_witness:
  "integrity seed_store
   \<and> map (\<lambda>jc. title (fst jc)) (selected [(''hasEquity'', JBool True)] seed_store) = [''J1'', ''J2'']
   \<and> mset (map fst (selected [(''hasEquity'', JBool True)] seed_store)) =
       mset (filter equity_positive (jobs seed_store))
   \<and> mset (map fst (selected [(''hasEquity'', JBool False)] seed_store)) = mset (jobs seed_store)
   \<and> mset (map fst (selected [] seed_store)) = mset (jobs seed_store)"
proof -
  have i: "integrity seed_store"
    by (simp add: integrity_def seed_store_def)
  have t: "map (\<lambda>jc. title (fst jc)) (selected [(''hasEquity'', JBool True)] seed_store) =
      [''J1'', ''J2'']"
    by (simp add: selected_def filter_clause_def get_prop_def joined_def seed_store_def
        equity_positive_def decimal_value_def digit_of_def)
  from findAll_hasEquity [OF i, of "[(''hasEquity'', JBool True)]"]
       findAll_hasEquity [OF i, of "[(''hasEquity'', JBool False)]"]
       findAll_hasEquity [OF i, of "[]"] i t
  show ?thesis by (simp add: get_prop_def)
qed

text \<open>Operations on an id that names no job.\<close>

lemma find_job_joined:
  assumes "find_job i db = None"
  shows "find (\<lambda>jc. id_of i = Some (job_id (fst jc))) (joined db) = None"
proof (cases "id_of i")
  case None
  then show ?thesis by (simp add: find_None_iff)
next
  case (Some n)
  with assms have "\<forall>j \<in> set (jobs db). job_id j \<noteq> n"
    by (auto simp add: find_job_def find_None_iff)
  with Some show ?thesis
    by (auto simp add: find_None_iff dest: fst_joined)
qed

lemma set_columns_allowed:
  "list_all (\<lambda>k. k \<in> {''title'', ''salary'', ''equity''}) (map fst data) \<Longrightarrow>
   \<exists>cs. set_columns data = Some cs"
  by (induction data) (auto simp add: column_of_def)

lemma no_companyHandle:
  "list_all (\<lambda>k. k \<in> {''title'', ''salary'', ''equity''}) (map fst data) \<Longrightarrow>
   map_of data ''companyHandle'' = None"
  by (induction data) auto

lemma get_missing: "find_job i db = None \<Longrightarrow> get JobModel i db = (Inl no_job, db)"
  by (simp add: JobModel_def get_job_def find_job_joined)

lemma remove_missing: "find_job i db = None \<Longrightarrow> remove JobModel i db = (Inl no_job, db)"
  by (simp add: JobModel_def remove_job_def)

lemma update_missing:
  assumes "find_job i db = None" "data \<noteq> []"
    and "list_all (\<lambda>k. k \<in> {''title'', ''salary'', ''equity''}) (map fst data)"
  shows "update JobModel i (JObj data) db = (Inl no_job, db)"
proof -
  from assms(3) obtain cs where "set_columns data = Some cs"
    using set_columns_allowed by blast
  with assms show ?thesis
    by (simp add: JobModel_def update_fields_def update_clause_def no_companyHandle)
qed


section \<open>Authorization\<close>

lemma error_responder_Authorization: "error_responder AuthorizationError = unauthorized"
  by (simp add: error_responder_def unauthorized_def)

lemma run_stack_not_admin:
  "\<not> is_admin r \<Longrightarrow> run_stack (ensureAdmin # fs) r w = (unauthorized, w)"
  by (simp add: ensureAdmin_apply error_responder_Authorization)

lemma serve_get_any_admin:
  "serve d (r\<lparr>verb := GET, is_admin := a\<rparr>) w = serve d (r\<lparr>verb := GET, is_admin := b\<rparr>) w"
proof (cases "path r")
  case Root
  then show ?thesis by (simp add: serve_get_root)
next
  case (Seg s)
  then show ?thesis by (cases w) (simp add: serve_get_id)
qed

text \<open>
  C3. A request to \<^verbatim>\<open>POST /jobs\<close>, \<^verbatim>\<open>PATCH /jobs/:id\<close> or \<^verbatim>\<open>DELETE /jobs/:id\<close> that is
  not authorized as admin is answered 401 and leaves the store and the log of model calls
  as they were: after \<^verbatim>\<open>ensureAdmin\<close> no later function of the route runs, whatever it
  is. The answer to \<^verbatim>\<open>GET /jobs\<close> and \<^verbatim>\<open>GET /jobs/:id\<close> does not depend on the
  authorization of the request.
\<close>

theorem writes_need_admin_reads_do_not:
  "serve d (r\<lparr>verb := POST, path := Root, is_admin := False\<rparr>) w = (unauthorized, w)
   \<and> serve d (r\<lparr>verb := PATCH, path := Seg s, is_admin := False\<rparr>) w = (unauthorized, w)
   \<and> serve d (r\<lparr>verb := DELETE, path := Seg s, is_admin := False\<rparr>) w = (unauthorized, w)
   \<and> run_stack (ensureAdmin # fs) (r\<lparr>is_admin := False\<rparr>) w = (unauthorized, w)
   \<and> serve d (r\<lparr>verb := GET, is_admin := a\<rparr>) w = serve d (r\<lparr>verb := GET, is_admin := b\<rparr>) w"
proof -
  have "serve d (r\<lparr>verb := POST, path := Root, is_admin := False\<rparr>) w = (unauthorized, w)"
    by (simp add: serve_not_admin error_responder_Authorization)
  moreover
  have "serve d (r\<lparr>verb := PATCH, path := Seg s, is_admin := False\<rparr>) w = (unauthorized, w)"
    by (simp add: serve_not_admin [where s = s] error_responder_Authorization)
  moreover
  have "serve d (r\<lparr>verb := DELETE, path := Seg s, is_admin := False\<rparr>) w = (unauthorized, w)"
    by (simp add: serve_not_admin [where s = s] error_responder_Authorization)
  moreover
  have "run_stack (ensureAdmin # fs) (r\<lparr>is_admin := False\<rparr>) w = (unauthorized, w)"
    by (rule run_stack_not_admin) simp
  ultimately show ?thesis
    using serve_get_any_admin by blast
qed

section \<open>Creating a job\<close>

text \<open>
  C4 as stated fails: an admin \<^verbatim>\<open>POST /jobs\<close> whose body passes the creation schema but
  names a company that does not exist is answered with the error of \<^verbatim>\<open>Job.create\<close>
  (404 here), not with 201.
\<close>

theorem post_job_unknown_company_counterexample:
  "valid (jsonschema_validate example_deps (new_job ''nope'') jobNewSchema)
   \<and> serve example_deps
       (example_request\<lparr>verb := POST, is_admin := True, body := new_job ''nope''\<rparr>)
       (seed_store, []) =
     (Response 404
        (JObj [(''error'', JObj [(''message'', JStr ''No company''),
                                 (''status'', JNum (Num 404))])]),
      (seed_store, [CallCreate (new_job ''nope'')]))"
  by (simp add: serve_post_admin example_simps)

text \<open>
  C4, amended. For every admin \<^verbatim>\<open>POST /jobs\<close> request: if the body fails the creation
  schema, the handler throws a BadRequestError that carries the message of every
  violation the validator reports, \<^verbatim>\<open>Job.create\<close> is not called, and the response is 400;
  if the body passes, \<^verbatim>\<open>Job.create\<close> is called with the body, and the response is 201
  with body \<^verbatim>\<open>{job}\<close> when it returns a job, while an error it throws is forwarded to the
  error responder.
\<close>

theorem post_job_admin:
  "serve d (r\<lparr>verb := POST, path := Root, is_admin := True\<rparr>) (db, cs) =
     (if \<not> valid (jsonschema_validate d (body r) jobNewSchema) then
        (Response 400
           (JObj [(''error'',
              JObj [(''message'', JArr (map (\<lambda>e. JStr (stack e))
                       (errors (jsonschema_validate d (body r) jobNewSchema)))),
                    (''status'', JNum (Num 400))])]),
         (db, cs))
      else
        (case create (Job d) (body r) db of
           (Inl e, db') \<Rightarrow> (error_responder e, (db', cs @ [CallCreate (body r)]))
         | (Inr job, db') \<Rightarrow>
             (Response 201 (JObj [(''job'', job)]), (db', cs @ [CallCreate (body r)]))))
   \<and> apply_fn (handler3 (post_root d)) [Req r, Res, Next] (db, cs) =
     (if \<not> valid (jsonschema_validate d (body r) jobNewSchema) then
        (Inr (NextCalled (Some (BadRequestError (JArr (map (\<lambda>e. JStr (stack e))
           (errors (jsonschema_validate d (body r) jobNewSchema))))))), (db, cs))
      else
        (case create (Job d) (body r) db of
           (Inl e, db') \<Rightarrow> (Inr (NextCalled (Some e)), (db', cs @ [CallCreate (body r)]))
         | (Inr job, db') \<Rightarrow>
             (Inr (Sent 201 (JObj [(''job'', job)])), (db', cs @ [CallCreate (body r)]))))"
proof (cases "create (Job d) (body r) db")
  case (Pair res db')
  then show ?thesis
    by (cases res)
       (simp_all add: serve_post_admin apply_handler3 post_root_env3 error_responder_def
          error_stacks_def)
qed

section \<open>Deleting a job\<close>

text \<open>
  C6. For every admin \<^verbatim>\<open>DELETE /jobs/:id\<close> request on an existing job (one that
  \<^verbatim>\<open>Job.remove\<close> removes without error), the handler calls \<^verbatim>\<open>Job.remove\<close> with the id of
  the path and responds 200 with body \<^verbatim>\<open>{deleted: id}\<close>, where \<^verbatim>\<open>id\<close> is the number that
  unary plus makes of the path segment.
\<close>

theorem delete_job_admin:
  assumes "remove (Job d) (JStr s) db = (Inr (), db')"
  shows "serve d (r\<lparr>verb := DELETE, path := Seg s, is_admin := True\<rparr>) (db, cs) =
     (Response 200 (JObj [(''deleted'', JNum (to_number d (JStr s)))]),
      (db', cs @ [CallRemove (JStr s)]))"
  using assms by (simp add: serve_delete_admin [where s = s])

text \<open>Deleting job 1 of the seed data through the Job model of the specification.\<close>

theorem delete_job_admin_witness:
  "remove (Job example_deps) (JStr ''1'') seed_store =
     (Inr (), seed_store\<lparr>jobs := tl (jobs seed_store)\<rparr>)
   \<and> serve example_deps (example_request\<lparr>verb := DELETE, path := Seg ''1'', is_admin := True\<rparr>)
       (seed_store, []) =
     (Response 200 (JObj [(''deleted'', JNum (Num 1))]),
      (seed_store\<lparr>jobs := tl (jobs seed_store)\<rparr>, [CallRemove (JStr ''1'')]))"
proof -
  have h: "remove (Job example_deps) (JStr ''1'') seed_store =
     (Inr (), seed_store\<lparr>jobs := tl (jobs seed_store)\<rparr>)"
    by (simp add: example_simps)
  have n: "to_number example_deps (JStr ''1'') = Num 1"
    by (simp add: example_simps)
  from delete_job_admin [OF h, of example_request "[]"] h n show ?thesis
    by simp
qed

section \<open>Ids that name no job\<close>

text \<open>
  C5 as stated fails. The id 0 names no job of the seed data, yet \<^verbatim>\<open>update\<close> with an
  empty map or with a \<^verbatim>\<open>companyHandle\<close> is rejected as a bad request before any lookup,
  and an admin \<^verbatim>\<open>PATCH /jobs/0\<close> ends in the ReferenceError of the handler, not in 404.
\<close>

theorem missing_job_counterexample:
  "find_job (JStr ''0'') seed_store = None
   \<and> update JobModel (JStr ''0'') (JObj []) seed_store =
       (Inl (BadRequestError (JStr ''No data'')), seed_store)
   \<and> update JobModel (JStr ''0'') (JObj [(''companyHandle'', JStr ''c2'')]) seed_store =
       (Inl (BadRequestError (JStr ''companyHandle cannot be changed'')), seed_store)
   \<and> serve example_deps
       (example_request\<lparr>verb := PATCH, path := Seg ''0'', is_admin := True,
          body := JObj [(''title'', JStr ''J-New'')]\<rparr>)
       (seed_store, []) =
     (Unhandled (ReferenceError ''next''), (seed_store, []))"
  by (simp add: serve_patch_admin [where s = "''0''"] example_simps)

text \<open>
  C5, amended. For every id that names no existing job, \<^verbatim>\<open>get\<close> and \<^verbatim>\<open>remove\<close> fail with
  a NotFoundError, and so does \<^verbatim>\<open>update\<close> when its data is a non-empty map of the fields
  \<^verbatim>\<open>title\<close>, \<^verbatim>\<open>salary\<close> and \<^verbatim>\<open>equity\<close>; \<^verbatim>\<open>GET /jobs/:id\<close> and the admin
  \<^verbatim>\<open>DELETE /jobs/:id\<close> over them answer 404.
\<close>

theorem missing_job_is_not_found:
  assumes "find_job i db = None" and "find_job (JStr s) db = None"
  shows "get JobModel i db = (Inl (NotFoundError (JStr ''No job'')), db)
   \<and> remove JobModel i db = (Inl (NotFoundError (JStr ''No job'')), db)
   \<and> (data \<noteq> [] \<and> list_all (\<lambda>k. k \<in> {''title'', ''salary'', ''equity''}) (map fst data) \<longrightarrow>
        update JobModel i (JObj data) db = (Inl (NotFoundError (JStr ''No job'')), db))
   \<and> serve (d\<lparr>Job := JobModel\<rparr>) (r\<lparr>verb := GET, path := Seg s\<rparr>) (db, cs) =
       (not_found, (db, cs @ [CallGet (JStr s)]))
   \<and> serve (d\<lparr>Job := JobModel\<rparr>) (r\<lparr>verb := DELETE, path := Seg s, is_admin := True\<rparr>) (db, cs) =
       (not_found, (db, cs @ [CallRemove (JStr s)]))"
proof -
  have "serve (d\<lparr>Job := JobModel\<rparr>) (r\<lparr>verb := GET, path := Seg s\<rparr>) (db, cs) =
       (not_found, (db, cs @ [CallGet (JStr s)]))"
    using assms(2)
    by (simp add: serve_get_id [where s = s] get_missing no_job_def error_responder_def
        not_found_def)
  moreover
  have "serve (d\<lparr>Job := JobModel\<rparr>) (r\<lparr>verb := DELETE, path := Seg s, is_admin := True\<rparr>)
          (db, cs) = (not_found, (db, cs @ [CallRemove (JStr s)]))"
    using assms(2)
    by (simp add: serve_delete_admin [where s = s] remove_missing no_job_def
        error_responder_def not_found_def)
  ultimately show ?thesis
    using assms(1) by (simp add: get_missing remove_missing update_missing no_job_def)
qed

text \<open>The id 0 on the seed data.\<close>

theorem missing_job_is_not_found_witness:
  "find_job (JStr ''0'') seed_store = None
   \<and> get JobModel (JStr ''0'') seed_store = (Inl (NotFoundError (JStr ''No job'')), seed_store)
   \<and> remove JobModel (JStr ''0'') seed_store =
       (Inl (NotFoundError (JStr ''No job'')), seed_store)
   \<and> update JobModel (JStr ''0'') (JObj [(''title'', JStr ''J-New'')]) seed_store =
       (Inl (NotFoundError (JStr ''No job'')), seed_store)
   \<and> serve example_deps (example_request\<lparr>verb := GET, path := Seg ''0''\<rparr>) (seed_store, []) =
       (not_found, (seed_store, [CallGet (JStr ''0'')]))
   \<and> serve example_deps
       (example_request\<lparr>verb := DELETE, path := Seg ''0'', is_admin := True\<rparr>) (seed_store, []) =
       (not_found, (seed_store, [CallRemove (JStr ''0'')]))"
proof -
  have h: "find_job (JStr ''0'') seed_store = None"
    by (simp add: find_job_def seed_store_def digit_of_def)
  have d: "example_deps\<lparr>Job := JobModel\<rparr> = example_deps"
    by (simp add: example_deps_def)
  from missing_job_is_not_found
         [OF h h, of "[(''title'', JStr ''J-New'')]" example_deps example_request "[]"] h d
  show ?thesis by simp
qed

end
